theory Spec2Isabelle
  imports Main
begin

section \<open>JavaScript values\<close>

text \<open>
  The program (\<^verbatim>\<open>webhook.js\<close>) resolves the category of a Wildberries URL, requests
  the pages of the category, sends the product names of each page to a keyword service
  and collects the rows of a report. This theory embeds the classes \<^verbatim>\<open>EvirmaClient\<close>
  and \<^verbatim>\<open>WildberriesParser\<close> and the methods of \<^verbatim>\<open>LogService\<close> and
  \<^verbatim>\<open>FileService\<close> they call. What the program awaits from the outside (HTTP answers,
  the bot, the file system, the URL parser, the clock) is a parameter, the \<open>world\<close>;
  every function returns, next to its result, the events it causes in their order. A
  \<^verbatim>\<open>throw\<close> is the result \<open>Inl\<close>. The calls of one session run one after the
  other, as the \<^verbatim>\<open>await\<close>s of the source order them; the interleaving of several
  sessions and the passing of time are outside the model.

  The program works on parsed JSON: the category tree of the catalog, the product pages
  and the answers of the keyword service. A value is one of the JSON shapes, or
  \<^verbatim>\<open>undefined\<close>, which a read of a missing property gives. Numbers are the integers
  (identifiers and counts); fractional numbers do not occur in what is modelled. An
  object is the list of its own properties in the order \<^verbatim>\<open>Object.entries\<close>
  enumerates them, each name once.
\<close>

datatype jsval =
    JUndefined
  | JNull
  | JBool bool
  | JNum int
  | JStr string
  | JArr "jsval list"
  | JObj "(string \<times> jsval) list"

text \<open>The conversion to boolean that \<^verbatim>\<open>!x\<close>, \<^verbatim>\<open>x || y\<close>, \<^verbatim>\<open>x && y\<close> and \<^verbatim>\<open>if (x)\<close> apply.\<close>

fun truthy :: "jsval \<Rightarrow> bool" where
  "truthy JUndefined = False"
| "truthy JNull = False"
| "truthy (JBool b) = b"
| "truthy (JNum n) = (n \<noteq> 0)"
| "truthy (JStr s) = (s \<noteq> [])"
| "truthy (JArr xs) = True"
| "truthy (JObj kvs) = True"

text \<open>\<^verbatim>\<open>x || y\<close> on values.\<close>

definition js_or :: "jsval \<Rightarrow> jsval \<Rightarrow> jsval" where
  "js_or x y = (if truthy x then x else y)"

text \<open>\<^verbatim>\<open>x === null || x === undefined\<close>: a property read on such a value throws a TypeError.\<close>

fun nullish :: "jsval \<Rightarrow> bool" where
  "nullish JUndefined = True"
| "nullish JNull = True"
| "nullish v = False"

text \<open>\<^verbatim>\<open>node.k\<close> and \<^verbatim>\<open>"k" in node\<close> on the property list of an object.\<close>

definition get_prop :: "(string \<times> jsval) list \<Rightarrow> string \<Rightarrow> jsval" where
  "get_prop kvs k = (case map_of kvs k of None \<Rightarrow> JUndefined | Some v \<Rightarrow> v)"

definition has_prop :: "string \<Rightarrow> (string \<times> jsval) list \<Rightarrow> bool" where
  "has_prop k kvs = (k \<in> set (map fst kvs))"

text \<open>
  \<^verbatim>\<open>v.k\<close> on a value that is not null or undefined, for the property names the program
  reads (none of them is a property of a string, a number, a boolean or an array).
\<close>

fun read_prop :: "jsval \<Rightarrow> string \<Rightarrow> jsval" where
  "read_prop (JObj kvs) k = get_prop kvs k"
| "read_prop v k = JUndefined"

text \<open>\<^verbatim>\<open>v?.k\<close>: undefined on null and undefined, the property otherwise.\<close>

definition opt_prop :: "jsval \<Rightarrow> string \<Rightarrow> jsval" where
  "opt_prop v k = (if nullish v then JUndefined else read_prop v k)"

section \<open>Flattening the category tree\<close>

record category =
  name :: jsval
  shard :: jsval
  url :: jsval
  query :: jsval

lemma size_get_prop:
  "size (get_prop kvs k) < Suc (size_list (size_prod (\<lambda>_. 0) size) kvs)"
  by (induction kvs) (auto simp: get_prop_def)

lemma size_member: "x \<in> set xs \<Longrightarrow> size (x :: jsval) < size (JArr xs)"
  by (induction xs) auto

lemma size_child:
  assumes "get_prop node k = JArr childs" and "x \<in> set childs"
  shows "size x < size (JObj node)"
proof -
  have "size x < size (JArr childs)"
    using assms(2) by (rule size_member)
  also have "\<dots> < Suc (size_list (size_prod (\<lambda>_. 0) size) node)"
    using size_get_prop [of node k] assms(1) by simp
  finally show ?thesis by simp
qed

text \<open>
  \<^verbatim>\<open>processNode\<close> of \<^verbatim>\<open>extractCategoryData\<close>. The source pushes onto the array
  \<^verbatim>\<open>categories\<close>; the model returns the entries pushed, in the order of the pushes.
  The line \<^verbatim>\<open>extractCategoryData\<close> writes to the log is among the events of its
  caller, \<open>findCategoryByUrl\<close>.
\<close>

function processNode :: "jsval \<Rightarrow> category list" where
  "processNode (JArr items) = concat (map processNode items)"
| "processNode (JObj node) =
     (if has_prop ''name'' node \<and> has_prop ''url'' node
      then [\<lparr>name = get_prop node ''name'',
             shard = js_or (get_prop node ''shard'') JNull,
             url = get_prop node ''url'',
             query = js_or (get_prop node ''query'') JNull\<rparr>]
      else [])
     @ (case get_prop node ''childs'' of
          JArr childs \<Rightarrow> concat (map processNode childs)
        | _ \<Rightarrow> [])"
| "processNode JUndefined = []"
| "processNode JNull = []"
| "processNode (JBool b) = []"
| "processNode (JNum n) = []"
| "processNode (JStr s) = []"
  by pat_completeness auto
termination
proof (relation "measure size")
  show "wf (measure size)" by simp
next
  fix items :: "jsval list" and x
  assume "x \<in> set items"
  then show "(x, JArr items) \<in> measure size"
    using size_member by simp
next
  fix node childs and x :: jsval
  assume "get_prop node ''childs'' = JArr childs" and "x \<in> set childs"
  then show "(x, JObj node) \<in> measure size"
    using size_child by simp
qed

definition extractCategoryData :: "jsval \<Rightarrow> category list" where
  "extractCategoryData catalog =
     (case catalog of
        JArr items \<Rightarrow> concat (map processNode items)
      | _ \<Rightarrow> processNode catalog)"

subsection \<open>The flattening as the specification words it\<close>

text \<open>
  The object nodes of a tree in depth-first pre-order: a list contributes the nodes of its
  elements in the order of the list, an object contributes itself and then the nodes of
  its \<^verbatim>\<open>childs\<close> list.
\<close>

function tree_nodes :: "jsval \<Rightarrow> (string \<times> jsval) list list" where
  "tree_nodes (JArr items) = concat (map tree_nodes items)"
| "tree_nodes (JObj node) =
     node # (case get_prop node ''childs'' of
               JArr childs \<Rightarrow> concat (map tree_nodes childs)
             | _ \<Rightarrow> [])"
| "tree_nodes JUndefined = []"
| "tree_nodes JNull = []"
| "tree_nodes (JBool b) = []"
| "tree_nodes (JNum n) = []"
| "tree_nodes (JStr s) = []"
  by pat_completeness auto
termination
proof (relation "measure size")
  show "wf (measure size)" by simp
next
  fix items :: "jsval list" and x
  assume "x \<in> set items"
  then show "(x, JArr items) \<in> measure size"
    using size_member by simp
next
  fix node childs and x :: jsval
  assume "get_prop node ''childs'' = JArr childs" and "x \<in> set childs"
  then show "(x, JObj node) \<in> measure size"
    using size_child by simp
qed

definition carries_name_url :: "(string \<times> jsval) list \<Rightarrow> bool" where
  "carries_name_url node = (has_prop ''name'' node \<and> has_prop ''url'' node)"

definition as_category :: "(string \<times> jsval) list \<Rightarrow> category" where
  "as_category node =
     \<lparr>name = get_prop node ''name'',
      shard = js_or (get_prop node ''shard'') JNull,
      url = get_prop node ''url'',
      query = js_or (get_prop node ''query'') JNull\<rparr>"

definition flattened :: "jsval \<Rightarrow> category list" where
  "flattened tree = map as_category (filter carries_name_url (tree_nodes tree))"

definition catalog_example :: jsval where
  "catalog_example =
     JArr [JObj [(''name'', JStr ''Dom''), (''url'', JStr ''/catalog/dom''),
                 (''childs'', JArr [JObj [(''name'', JStr ''Vannaya''),
                                          (''url'', JStr ''/catalog/dom/vannaya'')]])]]"

section \<open>Strings\<close>

text \<open>
  Strings are lists of ASCII characters. \<^verbatim>\<open>String(n)\<close> of an integer is its decimal
  numeral; \<^verbatim>\<open>toLowerCase\<close> maps the letters A to Z and leaves every other character;
  \<^verbatim>\<open>s.replace(/\/+$/, "")\<close> removes the slashes at the end of a string.
\<close>

definition digit_char :: "nat \<Rightarrow> char" where
  "digit_char d = ''0123456789'' ! d"

fun decimal :: "nat \<Rightarrow> string" where
  "decimal n =
     (if n < 10 then [digit_char n] else decimal (n div 10) @ [digit_char (n mod 10)])"

declare decimal.simps [simp del]

fun join_comma :: "string list \<Rightarrow> string" where
  "join_comma [] = []"
| "join_comma [s] = s"
| "join_comma (s # t # ss) = s @ '','' @ join_comma (t # ss)"

text \<open>The string a value becomes in a template literal or in \<^verbatim>\<open>+=\<close> with a string.\<close>

fun js_toString :: "jsval \<Rightarrow> string" where
  "js_toString JUndefined = ''undefined''"
| "js_toString JNull = ''null''"
| "js_toString (JBool b) = (if b then ''true'' else ''false'')"
| "js_toString (JNum n) = (if n < 0 then CHR ''-'' # decimal (nat (- n)) else decimal (nat n))"
| "js_toString (JStr s) = s"
| "js_toString (JArr xs) = join_comma (map (\<lambda>x. if nullish x then [] else js_toString x) xs)"
| "js_toString (JObj kvs) = ''[object Object]''"

definition lower_char :: "char \<Rightarrow> char" where
  "lower_char c =
     (case map_of (zip ''ABCDEFGHIJKLMNOPQRSTUVWXYZ'' ''abcdefghijklmnopqrstuvwxyz'') c of
        Some l \<Rightarrow> l
      | None \<Rightarrow> c)"

definition toLowerCase :: "string \<Rightarrow> string" where
  "toLowerCase s = map lower_char s"

definition strip_trailing_slashes :: "string \<Rightarrow> string" where
  "strip_trailing_slashes s = rev (dropWhile (\<lambda>c. c = CHR ''/'') (rev s))"

section \<open>Messages, errors and what the program does to the outside\<close>

type_synonym userId = int

text \<open>
  \<^verbatim>\<open>new URL(url)\<close> is the platform's parser. The model takes its result: the
  \<^verbatim>\<open>pathname\<close> and the name-value pairs of \<^verbatim>\<open>searchParams\<close> in the order of the
  query string, values decoded.
\<close>

record urlObj =
  pathname :: string
  searchParams :: "(string \<times> string) list"

text \<open>\<^verbatim>\<open>searchParams.get(k)\<close>: the value of the first pair named \<open>k\<close>, or null.\<close>

definition searchParams_get :: "(string \<times> string) list \<Rightarrow> string \<Rightarrow> jsval" where
  "searchParams_get ps k = (case map_of ps k of None \<Rightarrow> JNull | Some v \<Rightarrow> JStr v)"

record filterParams =
  priceU :: jsval
  xsubject :: jsval
  fbrand :: jsval
  fsupplier :: jsval
  sort :: jsval

text \<open>
  The texts the program writes to its log, sends through the bot and puts into the errors
  it throws are Russian and English templates. A text is the template, named in English,
  with the values and texts it interpolates in their order.
\<close>

datatype msg =
    Msg string "msg list"
  | Arg jsval

definition arg_nat :: "nat \<Rightarrow> msg" where
  "arg_nat n = Arg (JNum (int n))"

definition arg_str :: "string \<Rightarrow> msg" where
  "arg_str s = Arg (JStr s)"

text \<open>
  A thrown error: its \<^verbatim>\<open>message\<close> and, for a failed HTTP request that got an answer,
  its \<^verbatim>\<open>response\<close> with \<^verbatim>\<open>status\<close> and \<^verbatim>\<open>data\<close>.
\<close>

datatype js_error = Thrown msg "(nat \<times> jsval) option"

fun message :: "js_error \<Rightarrow> msg" where
  "message (Thrown m r) = m"

fun response :: "js_error \<Rightarrow> (nat \<times> jsval) option" where
  "response (Thrown m r) = r"

definition TypeError :: js_error where
  "TypeError = Thrown (Msg ''TypeError'' []) None"

definition Error :: "msg \<Rightarrow> js_error" where
  "Error m = Thrown m None"

datatype level = Info | Warning | Err

record report_row =
  term_name :: string
  productCount :: jsval
  monthlyFrequency :: jsval

text \<open>The places where the program calls the Telegram bot; each is reached at most once per run.\<close>

datatype site =
    ProgressSend nat
  | ProgressEdit nat
  | RetryNotice nat nat
  | RetryEdit nat nat
  | EvirmaFailureNotice nat
  | PageFailureNotice nat
  | NoRowsNotice
  | NothingFoundNotice
  | DocumentSend
  | DocumentFailureNotice

datatype event =
    Log level msg
  | HttpGet string
  | HttpPost "jsval list"
  | Sleep nat
  | SendMessage userId msg
  | EditMessageText userId msg
  | SendDocument userId
  | WriteFile string "report_row list"
  | FileAccess string

text \<open>
  What the outside answers: the URL parser, the catalog request, the request for a page
  and the request to the keyword service by page and attempt, each call of the bot, and
  the two file operations of the export, and the clock. An answer is a thrown error
  (\<open>Inl\<close>) or a value.
\<close>

record world =
  new_URL :: "string \<Rightarrow> urlObj option"
  catalog_response :: "js_error + jsval"
  page_response :: "nat \<Rightarrow> nat \<Rightarrow> js_error + jsval"
  evirma_response :: "nat \<Rightarrow> nat \<Rightarrow> js_error + jsval"
  bot_call :: "site \<Rightarrow> js_error + (string \<times> jsval) list"
  fs_writeFile :: "js_error option"
  fs_access :: "js_error option"
  now :: nat

section \<open>Resolving the category of a URL\<close>

definition catalog_url :: string where
  "catalog_url = ''https://static-basket-01.wbbasket.ru/vol0/data/main-menu-ru-ru-v3.json''"

definition fetchWbCatalog :: "world \<Rightarrow> (js_error + jsval) \<times> event list" where
  "fetchWbCatalog w =
     (case catalog_response w of
        Inr d \<Rightarrow> (Inr d, [HttpGet catalog_url])
      | Inl e \<Rightarrow> (Inl e, [HttpGet catalog_url, Log Err (Msg ''Error fetching WB catalog'' [message e])]))"

definition normalize_path :: "string \<Rightarrow> string" where
  "normalize_path s = strip_trailing_slashes (toLowerCase s)"

text \<open>
  \<^verbatim>\<open>categories.find(...)\<close>: the first category whose normalized \<^verbatim>\<open>url\<close> is the
  normalized path. \<^verbatim>\<open>cat.url.toLowerCase()\<close> throws a TypeError on a \<^verbatim>\<open>url\<close> that is
  not a string, when the search reaches it.
\<close>

fun find_category :: "category list \<Rightarrow> string \<Rightarrow> js_error + category option" where
  "find_category [] baseUrl = Inr None"
| "find_category (c # cs) baseUrl =
     (case url c of
        JStr u \<Rightarrow>
          if normalize_path u = normalize_path baseUrl then Inr (Some c)
          else find_category cs baseUrl
      | _ \<Rightarrow> Inl TypeError)"

text \<open>\<^verbatim>\<open>if (v) query += `&key=${v}`\<close>\<close>

definition append_param :: "jsval \<Rightarrow> string \<Rightarrow> jsval \<Rightarrow> jsval" where
  "append_param q k v =
     (if truthy v then JStr (js_toString q @ ''&'' @ k @ ''='' @ js_toString v) else q)"

definition read_filterParams :: "(string \<times> string) list \<Rightarrow> filterParams" where
  "read_filterParams ps =
     \<lparr>priceU = js_or (searchParams_get ps ''priceU'') JNull,
      xsubject = js_or (searchParams_get ps ''xsubject'') JNull,
      fbrand = js_or (searchParams_get ps ''fbrand'') JNull,
      fsupplier = js_or (searchParams_get ps ''fsupplier'') JNull,
      sort = js_or (searchParams_get ps ''sort'') (JStr ''popular'')\<rparr>"

definition merge_query :: "category \<Rightarrow> filterParams \<Rightarrow> jsval" where
  "merge_query c fp =
     (let q0 = js_or (query c) (JStr []);
          q1 = append_param q0 ''priceU'' (priceU fp);
          q2 = append_param q1 ''xsubject'' (xsubject fp);
          q3 = append_param q2 ''fbrand'' (fbrand fp);
          q4 = append_param q3 ''fsupplier'' (fsupplier fp)
      in append_param q4 ''sort'' (sort fp))"

text \<open>
  \<^verbatim>\<open>findCategoryByUrl(url)\<close>, from the cached \<^verbatim>\<open>this.catalogData\<close>: the result (a
  thrown error, null or the category), the new \<^verbatim>\<open>this.catalogData\<close> and the events.
\<close>

definition findCategoryByUrl ::
  "world \<Rightarrow> string \<Rightarrow> jsval \<Rightarrow> (js_error + category option) \<times> jsval \<times> event list" where
  "findCategoryByUrl w u cached =
     (let (fetched, tr1) = (if \<not> truthy cached then fetchWbCatalog w else (Inr cached, []))
      in case fetched of
           Inl e \<Rightarrow> (Inl e, cached, tr1 @ [Log Err (Msg ''Error in findCategoryByUrl'' [message e])])
         | Inr catalogData \<Rightarrow>
             (case new_URL w u of
                None \<Rightarrow>
                  (Inl TypeError, catalogData,
                   tr1 @ [Log Err (Msg ''Error in findCategoryByUrl'' [message TypeError])])
              | Some urlObj \<Rightarrow>
                  (let baseUrl = pathname urlObj;
                       fp = read_filterParams (searchParams urlObj);
                       categories = extractCategoryData catalogData;
                       tr2 = tr1 @ [Log Info (Msg ''Searching for category with URL''
                                                [arg_str baseUrl, Arg (priceU fp), Arg (xsubject fp),
                                                 Arg (fbrand fp), Arg (fsupplier fp), Arg (sort fp)]),
                                    Log Info (Msg ''Extracted categories'' [arg_nat (length categories)]),
                                    Log Info (Msg ''Total categories found''
                                                [arg_nat (length categories)])]
                   in case find_category categories baseUrl of
                        Inl e \<Rightarrow>
                          (Inl e, catalogData, tr2 @ [Log Err (Msg ''Error in findCategoryByUrl'' [message e])])
                      | Inr None \<Rightarrow> (Inr None, catalogData, tr2 @ [Log Warning (Msg ''Category not found in catalog'' [])])
                      | Inr (Some c) \<Rightarrow>
                          (Inr (Some (c\<lparr>query := merge_query c fp\<rparr>)), catalogData,
                           tr2 @ [Log Info (Msg ''Found category'' [Arg (name c)])]))))"

text \<open>The address \<^verbatim>\<open>scrapeWbPage\<close> requests for a page of a category.\<close>

definition page_url :: "nat \<Rightarrow> category \<Rightarrow> string" where
  "page_url page c =
     ''https://catalog.wb.ru/catalog/'' @ js_toString (shard c)
     @ ''/catalog?appType=1&curr=rub&dest=-1257786&locale=ru&page='' @ decimal page
     @ ''&sort=popular&spp=0&'' @ js_toString (query c)"

section \<open>The keyword service client\<close>

text \<open>
  \<^verbatim>\<open>Object.entries(v)\<close> of a value that is not null or undefined: the properties of an
  object, the indexed elements of an array, the indexed characters of a string, nothing
  for a number or a boolean. \<^verbatim>\<open>Object.fromEntries\<close> of a sublist of the entries of
  an object keeps their order.
\<close>

fun Object_entries :: "jsval \<Rightarrow> (string \<times> jsval) list" where
  "Object_entries (JObj kvs) = kvs"
| "Object_entries (JArr xs) = zip (map decimal [0..<length xs]) xs"
| "Object_entries (JStr s) = zip (map decimal [0..<length s]) (map (\<lambda>c. JStr [c]) s)"
| "Object_entries v = []"

definition Object_fromEntries :: "(string \<times> jsval) list \<Rightarrow> jsval" where
  "Object_fromEntries kvs = JObj kvs"

text \<open>
  \<^verbatim>\<open>entries.filter(([, data]) => data.cluster !== null)\<close>: an entry whose value is null or
  undefined makes the read of \<^verbatim>\<open>cluster\<close> throw a TypeError.
\<close>

fun filter_clusters :: "(string \<times> jsval) list \<Rightarrow> js_error + (string \<times> jsval) list" where
  "filter_clusters [] = Inr []"
| "filter_clusters ((k, d) # kvs) =
     (if nullish d then Inl TypeError
      else case filter_clusters kvs of
             Inl e \<Rightarrow> Inl e
           | Inr kept \<Rightarrow> Inr (if read_prop d ''cluster'' \<noteq> JNull then (k, d) # kept else kept))"

text \<open>
  The body of the \<^verbatim>\<open>try\<close> of \<^verbatim>\<open>queryEvirmaApi\<close> after the request: from the answer of
  \<^verbatim>\<open>axios.post\<close> (a thrown error, or \<^verbatim>\<open>response.data\<close>) to the value returned or the
  error caught.
\<close>

definition evirma_try :: "js_error + jsval \<Rightarrow> js_error + jsval" where
  "evirma_try answer =
     (case answer of
        Inl e \<Rightarrow> Inl e
      | Inr body \<Rightarrow>
          if nullish body then Inl TypeError
          else case filter_clusters
                 (Object_entries (js_or (opt_prop (read_prop body ''data'') ''keywords'') (JObj [])))
               of
                 Inl e \<Rightarrow> Inl e
               | Inr kept \<Rightarrow>
                   Inr (if kept \<noteq> []
                        then JObj [(''data'', JObj [(''keywords'', Object_fromEntries kept)])]
                        else JNull))"

definition EVIRMA_MAX_RETRIES :: nat where
  "EVIRMA_MAX_RETRIES = 3"

text \<open>
  The \<^verbatim>\<open>while\<close> loop of \<^verbatim>\<open>queryEvirmaApi\<close> from the attempt counter \<open>attempt\<close>;
  \<open>post attempt\<close> is the answer to the request made at that value of the counter.
\<close>

function evirma_attempts ::
  "(nat \<Rightarrow> js_error + jsval) \<Rightarrow> jsval list \<Rightarrow> nat \<Rightarrow> (js_error + jsval) \<times> event list" where
  "evirma_attempts post keywords attempt =
     (if attempt < EVIRMA_MAX_RETRIES then
        (case evirma_try (post attempt) of
           Inr v \<Rightarrow> (Inr v, [HttpPost keywords])
         | Inl e \<Rightarrow>
             if attempt + 1 \<ge> EVIRMA_MAX_RETRIES then
               (Inl (Error (Msg ''Evirma API request error'' [message e])),
                [HttpPost keywords, Log Err (Msg ''Evirma API request error'' [message e])])
             else
               (case evirma_attempts post keywords (attempt + 1) of
                  (r, t) \<Rightarrow> (r, [HttpPost keywords, Sleep 2000] @ t)))
      else (Inr JUndefined, []))"
  by pat_completeness auto
termination
  by (relation "measure (\<lambda>(post, keywords, attempt). EVIRMA_MAX_RETRIES - attempt)") auto

declare evirma_attempts.simps [simp del]

definition queryEvirmaApi ::
  "(nat \<Rightarrow> js_error + jsval) \<Rightarrow> jsval list \<Rightarrow> (js_error + jsval) \<times> event list" where
  "queryEvirmaApi post keywords = evirma_attempts post keywords 0"

text \<open>
  The loop of \<^verbatim>\<open>parseEvirmaResponse\<close> over the entries. The row's three fields are the
  columns of the report: the name, the count of products and the frequency.
\<close>

fun parse_entries :: "(string \<times> jsval) list \<Rightarrow> js_error + report_row list" where
  "parse_entries [] = Inr []"
| "parse_entries ((keyword, keywordData) # kvs) =
     (if nullish keywordData then Inl TypeError
      else
        let cluster = read_prop keywordData ''cluster'' in
        if \<not> truthy cluster \<or> \<not> truthy (read_prop cluster ''product_count'')
           \<or> \<not> truthy (opt_prop (read_prop cluster ''freq_syn'') ''monthly'')
        then parse_entries kvs
        else case parse_entries kvs of
               Inl e \<Rightarrow> Inl e
             | Inr parsedData \<Rightarrow>
                 Inr (\<lparr>term_name = keyword,
                       productCount = read_prop cluster ''product_count'',
                       monthlyFrequency = read_prop (read_prop cluster ''freq_syn'') ''monthly''\<rparr>
                      # parsedData))"

definition parseEvirmaResponse :: "jsval \<Rightarrow> js_error + report_row list" where
  "parseEvirmaResponse evirmaData =
     (if \<not> truthy (opt_prop (opt_prop evirmaData ''data'') ''keywords'') then Inr []
      else parse_entries (Object_entries (read_prop (read_prop evirmaData ''data'') ''keywords'')))"

section \<open>The page scraper\<close>

definition MAX_RETRIES :: nat where
  "MAX_RETRIES = 6"

definition RETRY_WAIT_TIME :: nat where
  "RETRY_WAIT_TIME = 30000"

text \<open>\<^verbatim>\<open>error.response && error.response.status === 429\<close>\<close>

definition is_429 :: "js_error \<Rightarrow> bool" where
  "is_429 e = (case response e of Some (st, d) \<Rightarrow> st = 429 | None \<Rightarrow> False)"

text \<open>
  The message of the fatal error: the page, the message of the underlying error, the
  status when the error has a response, and the body when the response has one.
\<close>

definition page_error :: "nat \<Rightarrow> js_error \<Rightarrow> msg" where
  "page_error page e =
     Msg ''Error getting data from page''
       ([arg_nat page, message e]
        @ (case response e of
             None \<Rightarrow> []
           | Some (st, d) \<Rightarrow>
               [Msg ''Status'' [arg_nat st]]
               @ (if truthy d then [Msg ''Server response'' [Arg d]] else [])))"

definition retryMessage :: msg where
  "retryMessage = Msg ''Wildberries limit error, will send in seconds'' [arg_nat (RETRY_WAIT_TIME div 1000)]"

definition updateMessage :: "nat \<Rightarrow> nat \<Rightarrow> msg" where
  "updateMessage page attempt =
     Msg ''Sending request for the data of page, attempt'' [arg_nat page, arg_nat attempt]"

definition exhausted_error :: "nat \<Rightarrow> js_error" where
  "exhausted_error page =
     Error (Msg ''Failed to get data for page after attempts'' [arg_nat page, arg_nat MAX_RETRIES])"

text \<open>\<^verbatim>\<open>v.length\<close> of a value that is not null or undefined.\<close>

fun js_length :: "jsval \<Rightarrow> jsval" where
  "js_length (JArr xs) = JNum (int (length xs))"
| "js_length (JStr s) = JNum (int (length s))"
| "js_length (JObj kvs) = get_prop kvs ''length''"
| "js_length v = JUndefined"

text \<open>\<^verbatim>\<open>response.data.data?.products?.length || 0\<close>\<close>

definition products_count :: "jsval \<Rightarrow> jsval" where
  "products_count body =
     (let products = opt_prop (read_prop body ''data'') ''products''
      in js_or (if nullish products then JUndefined else js_length products) (JNum 0))"

text \<open>
  The \<^verbatim>\<open>while\<close> loop of \<^verbatim>\<open>scrapeWbPage\<close> from the attempt counter \<open>attempt\<close>. The
  body of the \<^verbatim>\<open>try\<close> (\<open>scrape_try\<close>, from the answer of \<^verbatim>\<open>axios.get\<close>) throws what
  \<^verbatim>\<open>axios.get\<close> throws, and a TypeError when \<^verbatim>\<open>response.data\<close> is null or
  undefined. An error thrown by the bot inside the \<^verbatim>\<open>catch\<close> leaves the function.
\<close>

definition scrape_try :: "js_error + jsval \<Rightarrow> js_error + jsval" where
  "scrape_try answer =
     (case answer of
        Inl e \<Rightarrow> Inl e
      | Inr body \<Rightarrow> if nullish body then Inl TypeError else Inr body)"

function scrape_attempts ::
  "world \<Rightarrow> nat \<Rightarrow> string \<Rightarrow> userId \<Rightarrow> nat \<Rightarrow> (js_error + jsval \<times> msg) \<times> event list" where
  "scrape_attempts w page u uid attempt =
     (if attempt < MAX_RETRIES then
        (case scrape_try (page_response w page attempt) of
           Inr body \<Rightarrow>
             (let logMessage = Msg ''Page: products received'' [arg_nat page, Arg (products_count body)]
              in (Inr (body, logMessage),
                  [HttpGet u, Log Info (arg_str u), Log Info logMessage]
                  @ (if page mod 10 = 0
                     then [Log Info (Msg ''Waiting 10 seconds after 10 requests'' []), Sleep 10000]
                     else [Sleep 2000])))
         | Inl e \<Rightarrow>
             if is_429 e then
               (case bot_call w (RetryNotice page (attempt + 1)) of
                  Inl e2 \<Rightarrow>
                    (Inl e2, [HttpGet u, Log Warning retryMessage, SendMessage uid retryMessage])
                | Inr botMessage \<Rightarrow>
                    (case bot_call w (RetryEdit page (attempt + 1)) of
                       Inl e3 \<Rightarrow>
                         (Inl e3,
                          [HttpGet u, Log Warning retryMessage, SendMessage uid retryMessage,
                           Sleep RETRY_WAIT_TIME,
                           EditMessageText uid (updateMessage page (attempt + 1))])
                     | Inr edited \<Rightarrow>
                         (case scrape_attempts w page u uid (attempt + 1) of
                            (r, t) \<Rightarrow>
                              (r,
                               [HttpGet u, Log Warning retryMessage,
                                SendMessage uid retryMessage, Sleep RETRY_WAIT_TIME,
                                EditMessageText uid (updateMessage page (attempt + 1)),
                                Log Info (updateMessage page (attempt + 1))] @ t))))
             else (Inl (Error (page_error page e)), [HttpGet u, Log Err (page_error page e)]))
      else (Inl (exhausted_error page), []))"
  by pat_completeness auto
termination
  by (relation "measure (\<lambda>(w, page, u, uid, attempt). MAX_RETRIES - attempt)") auto

declare scrape_attempts.simps [simp del]

definition scrapeWbPage ::
  "world \<Rightarrow> nat \<Rightarrow> category \<Rightarrow> userId \<Rightarrow> (js_error + jsval \<times> msg) \<times> event list" where
  "scrapeWbPage w page c uid =
     (case scrape_attempts w page (page_url page c) uid 0 of
        (r, t) \<Rightarrow> (r, Log Info (Msg ''URL'' [arg_str (page_url page c)]) # t))"

text \<open>
  \<^verbatim>\<open>queue.add(() => this.scrapeWbPage(...))\<close> resolves to what the task returns and
  rejects with what it throws.
\<close>

definition scrapeWbPageWithQueue ::
  "world \<Rightarrow> nat \<Rightarrow> category \<Rightarrow> userId \<Rightarrow> (js_error + jsval \<times> msg) \<times> event list" where
  "scrapeWbPageWithQueue w page c uid = scrapeWbPage w page c uid"

text \<open>
  \<^verbatim>\<open>processProducts\<close>: \<^verbatim>\<open>.filter\<close> exists on an array only, and \<^verbatim>\<open>"name" in product\<close>
  throws a TypeError on a product that is not an object.
\<close>

fun names_of :: "jsval list \<Rightarrow> js_error + jsval list" where
  "names_of [] = Inr []"
| "names_of (product # ps) =
     (case product of
        JObj kvs \<Rightarrow>
          (case names_of ps of
             Inl e \<Rightarrow> Inl e
           | Inr ns \<Rightarrow> Inr (if has_prop ''name'' kvs then get_prop kvs ''name'' # ns else ns))
      | JArr xs \<Rightarrow> names_of ps
      | _ \<Rightarrow> Inl TypeError)"

definition processProducts :: "jsval \<Rightarrow> js_error + jsval list" where
  "processProducts productsData =
     (if nullish productsData then Inl TypeError
      else case js_or (opt_prop (read_prop productsData ''data'') ''products'') (JArr []) of
             JArr products \<Rightarrow> names_of products
           | _ \<Rightarrow> Inl TypeError)"

section \<open>The parsing session\<close>

text \<open>
  The state the session works on: \<^verbatim>\<open>catalogData\<close>, \<^verbatim>\<open>results\<close> and
  \<^verbatim>\<open>activeParsingUsers\<close> of the parser, and \<^verbatim>\<open>logMessages\<close> of the log service, which
  holds for a user the identifier of the progress message and its lines.
\<close>

record state =
  catalogData :: jsval
  results :: "report_row list"
  activeParsingUsers :: "userId set"
  logMessages :: "userId \<Rightarrow> (jsval \<times> msg list) option"

definition MAX_PAGES :: nat where
  "MAX_PAGES = 50"

definition progress_display :: "msg list \<Rightarrow> msg" where
  "progress_display lines = Msg ''Parsing logs'' lines"

text \<open>
  \<^verbatim>\<open>updateLogMessage(userId, logMessage)\<close> on \<^verbatim>\<open>logMessages\<close>; the page only names
  the call of the bot. The first message of a user is sent, and a failure of the bot is
  thrown; a later one is pushed onto the stored lines and the message is edited, and a
  failure of the bot is caught and logged.
\<close>

definition updateLogMessage ::
  "world \<Rightarrow> nat \<Rightarrow> userId \<Rightarrow> msg \<Rightarrow> (userId \<Rightarrow> (jsval \<times> msg list) option)
   \<Rightarrow> js_error option \<times> (userId \<Rightarrow> (jsval \<times> msg list) option) \<times> event list" where
  "updateLogMessage w page uid logMessage lm =
     (case lm uid of
        None \<Rightarrow>
          (case bot_call w (ProgressSend page) of
             Inl e \<Rightarrow>
               (Some e, lm,
                [Log Info logMessage, SendMessage uid (progress_display [logMessage])])
           | Inr sent \<Rightarrow>
               (None, lm(uid \<mapsto> (get_prop sent ''message_id'', [logMessage])),
                [Log Info logMessage, SendMessage uid (progress_display [logMessage])]))
      | Some (messageId, lines) \<Rightarrow>
          (let currentLogs = lines @ [logMessage];
               lm' = lm(uid \<mapsto> (messageId, currentLogs))
           in case bot_call w (ProgressEdit page) of
                Inl e \<Rightarrow>
                  (None, lm',
                   [Log Info logMessage, EditMessageText uid (progress_display currentLogs),
                    Log Err (Msg ''Failed to update log for user'' [Arg (JNum uid), message e])])
              | Inr edited \<Rightarrow>
                  (None, lm',
                   [Log Info logMessage, EditMessageText uid (progress_display currentLogs)])))"

definition failure_notice :: "js_error \<Rightarrow> msg" where
  "failure_notice e = Msg ''Failure'' [message e]"

text \<open>
  The \<^verbatim>\<open>try\<close> block of one iteration of the page loop: it throws (\<open>Inl\<close>), or ends
  with \<^verbatim>\<open>break\<close> (\<open>Inr False\<close>), or runs to its end (\<open>Inr True\<close>). The inner
  \<^verbatim>\<open>catch\<close> around the call of the keyword service notifies the user and breaks; an
  error of the bot there is thrown on.
\<close>

definition page_try ::
  "world \<Rightarrow> category \<Rightarrow> userId \<Rightarrow> nat \<Rightarrow> report_row list
   \<Rightarrow> (userId \<Rightarrow> (jsval \<times> msg list) option)
   \<Rightarrow> (js_error + bool) \<times> report_row list \<times> (userId \<Rightarrow> (jsval \<times> msg list) option)
      \<times> event list" where
  "page_try w c uid page rs lm =
     (case scrapeWbPageWithQueue w page c uid of
        (Inl e, t1) \<Rightarrow> (Inl e, rs, lm, t1)
      | (Inr (data, logMessage), t1) \<Rightarrow>
          (case updateLogMessage w page uid logMessage lm of
             (Some e, lm1, t2) \<Rightarrow> (Inl e, rs, lm1, t1 @ t2)
           | (None, lm1, t2) \<Rightarrow>
               (case processProducts data of
                  Inl e \<Rightarrow> (Inl e, rs, lm1, t1 @ t2)
                | Inr products \<Rightarrow>
                    if products = [] then
                      (Inr False, rs, lm1,
                       t1 @ t2 @ [Log Info (Msg ''Page: no products found, stopping parsing''
                                             [arg_nat page])])
                    else
                      (case queryEvirmaApi (evirma_response w page) products of
                         (Inl e, t3) \<Rightarrow>
                           (case bot_call w (EvirmaFailureNotice page) of
                              Inl e2 \<Rightarrow>
                                (Inl e2, rs, lm1,
                                 t1 @ t2 @ t3 @ [SendMessage uid (failure_notice e)])
                            | Inr sent \<Rightarrow>
                                (Inr False, rs, lm1,
                                 t1 @ t2 @ t3 @ [SendMessage uid (failure_notice e)]))
                       | (Inr evirmaResponse, t3) \<Rightarrow>
                           if \<not> truthy evirmaResponse then (Inr False, rs, lm1, t1 @ t2 @ t3)
                           else
                             (case parseEvirmaResponse evirmaResponse of
                                Inl e \<Rightarrow> (Inl e, rs, lm1, t1 @ t2 @ t3)
                              | Inr pageResults \<Rightarrow>
                                  (Inr True, rs @ pageResults, lm1, t1 @ t2 @ t3))))))"

text \<open>
  One iteration with its \<^verbatim>\<open>catch\<close>: the loop goes on, or breaks, or an error of the bot
  thrown inside the \<^verbatim>\<open>catch\<close> leaves the loop.
\<close>

datatype step = Continue | Break | Abort js_error

definition page_iteration ::
  "world \<Rightarrow> category \<Rightarrow> userId \<Rightarrow> nat \<Rightarrow> report_row list
   \<Rightarrow> (userId \<Rightarrow> (jsval \<times> msg list) option)
   \<Rightarrow> step \<times> report_row list \<times> (userId \<Rightarrow> (jsval \<times> msg list) option) \<times> event list" where
  "page_iteration w c uid page rs lm =
     (case page_try w c uid page rs lm of
        (Inr True, rs', lm', t) \<Rightarrow> (Continue, rs', lm', t)
      | (Inr False, rs', lm', t) \<Rightarrow> (Break, rs', lm', t)
      | (Inl e, rs', lm', t) \<Rightarrow>
          (case bot_call w (PageFailureNotice page) of
             Inl e2 \<Rightarrow> (Abort e2, rs', lm', t @ [SendMessage uid (failure_notice e)])
           | Inr sent \<Rightarrow> (Break, rs', lm', t @ [SendMessage uid (failure_notice e)])))"

text \<open>
  The \<^verbatim>\<open>for\<close> loop from the page \<open>page\<close>. Every event is paired with the page during
  whose iteration it happens. The result is the error that left the loop, if any.
\<close>

function page_loop ::
  "world \<Rightarrow> category \<Rightarrow> userId \<Rightarrow> nat \<Rightarrow> report_row list
   \<Rightarrow> (userId \<Rightarrow> (jsval \<times> msg list) option)
   \<Rightarrow> js_error option \<times> report_row list \<times> (userId \<Rightarrow> (jsval \<times> msg list) option)
      \<times> (nat \<times> event) list" where
  "page_loop w c uid page rs lm =
     (if page \<le> MAX_PAGES then
        (case page_iteration w c uid page rs lm of
           (Continue, rs', lm', t) \<Rightarrow>
             (case page_loop w c uid (page + 1) rs' lm' of
                (r, rs'', lm'', t') \<Rightarrow> (r, rs'', lm'', map (Pair page) t @ t'))
         | (Break, rs', lm', t) \<Rightarrow> (None, rs', lm', map (Pair page) t)
         | (Abort e, rs', lm', t) \<Rightarrow> (Some e, rs', lm', map (Pair page) t))
      else (None, rs, lm, []))"
  by pat_completeness auto
termination
  by (relation "measure (\<lambda>(w, c, uid, page, rs, lm). Suc MAX_PAGES - page)") auto

declare page_loop.simps [simp del]

text \<open>
  The two operations of the file service the session calls. The path of the file is the
  output directory, the file name and the extension (the name has no path separator);
  building the sheet does not throw, writing the file may. \<^verbatim>\<open>sendExcelToUser\<close> also
  sets a timer that deletes the file 15 seconds later, after the call has returned.
\<close>

definition saveToExcel ::
  "world \<Rightarrow> report_row list \<Rightarrow> string \<Rightarrow> (js_error + jsval) \<times> event list" where
  "saveToExcel w data filename =
     (if data = [] then (Inr JNull, [Log Warning (Msg ''No data to save to Excel'' [])])
      else
        let filePath = ''/tmp/output/'' @ filename @ ''.xlsx''
        in case fs_writeFile w of
             Some e \<Rightarrow> (Inl e, [WriteFile filePath data])
           | None \<Rightarrow>
               (Inr (JStr filePath),
                [WriteFile filePath data, Log Info (Msg ''Saved Excel to'' [arg_str filePath])]))"

definition send_failed :: "world \<Rightarrow> userId \<Rightarrow> js_error \<Rightarrow> js_error option \<times> event list" where
  "send_failed w uid e =
     (case bot_call w DocumentFailureNotice of
        Inl e2 \<Rightarrow> (Some e2, [SendMessage uid (Msg ''Error sending the file'' [message e])])
      | Inr sent \<Rightarrow>
          (None,
           [SendMessage uid (Msg ''Error sending the file'' [message e]),
            Log Err (Msg ''Failed to send Excel to user'' [Arg (JNum uid), message e])]))"

definition sendExcelToUser ::
  "world \<Rightarrow> string \<Rightarrow> string \<Rightarrow> userId \<Rightarrow> js_error option \<times> event list" where
  "sendExcelToUser w filePath filename uid =
     (case fs_access w of
        Some e \<Rightarrow> (case send_failed w uid e of (r, t) \<Rightarrow> (r, FileAccess filePath # t))
      | None \<Rightarrow>
          (case bot_call w DocumentSend of
             Inl e \<Rightarrow>
               (case send_failed w uid e of
                  (r, t) \<Rightarrow> (r, [FileAccess filePath, SendDocument uid] @ t))
           | Inr sent \<Rightarrow>
               (None,
                [FileAccess filePath, SendDocument uid,
                 Log Info (Msg ''Excel report sent to user'' [Arg (JNum uid), arg_str filePath])])))"

definition no_frequency_rows :: msg where
  "no_frequency_rows = Msg ''Products found, but the search frequency of all is 0'' []"

definition nothing_found :: msg where
  "nothing_found = Msg ''No products found in this category with these filters'' []"

text \<open>
  The part of \<^verbatim>\<open>parseCategory\<close> after the page loop, from the collected rows: the value
  returned, or the error thrown.
\<close>

definition report ::
  "world \<Rightarrow> category \<Rightarrow> userId \<Rightarrow> report_row list \<Rightarrow> (js_error + jsval) \<times> event list" where
  "report w c uid rs =
     (if rs = [] then
        (case bot_call w NoRowsNotice of
           Inl e \<Rightarrow> (Inl e, [SendMessage uid no_frequency_rows])
         | Inr sent \<Rightarrow> (Inr (JObj sent), [SendMessage uid no_frequency_rows]))
      else if 0 < length rs then
        (let filename = js_toString (name c) @ ''_analysis_'' @ decimal (now w)
         in case saveToExcel w rs filename of
              (Inl e, t) \<Rightarrow> (Inl e, t)
            | (Inr filePath, t) \<Rightarrow>
                if truthy filePath then
                  (case sendExcelToUser w (js_toString filePath) filename uid of
                     (Some e, t2) \<Rightarrow> (Inl e, t @ t2)
                   | (None, t2) \<Rightarrow> (Inr (JBool True), t @ t2))
                else (Inr (JBool True), t))
      else
        (case bot_call w NothingFoundNotice of
           Inl e \<Rightarrow> (Inl e, [SendMessage uid nothing_found])
         | Inr sent \<Rightarrow> (Inr (JBool True), [SendMessage uid nothing_found])))"

text \<open>The \<^verbatim>\<open>try\<close> block of \<^verbatim>\<open>parseCategory\<close>: the value returned, or the error thrown.\<close>

definition session_try ::
  "world \<Rightarrow> string \<Rightarrow> userId \<Rightarrow> state \<Rightarrow> (js_error + jsval) \<times> state \<times> event list" where
  "session_try w u uid s =
     (case findCategoryByUrl w u (catalogData s) of
        (Inl e, cd, t) \<Rightarrow> (Inl e, s\<lparr>catalogData := cd\<rparr>, t)
      | (Inr None, cd, t) \<Rightarrow>
          (Inr (JBool False), s\<lparr>catalogData := cd\<rparr>,
           t @ [Log Warning (Msg ''Category not found. Check the URL.'' [])])
      | (Inr (Some c), cd, t) \<Rightarrow>
          (case page_loop w c uid 1 (results s) (logMessages s) of
             (Some e, rs, lm, t2) \<Rightarrow>
               (Inl e, s\<lparr>catalogData := cd, results := rs, logMessages := lm\<rparr>,
                t @ map snd t2)
           | (None, rs, lm, t2) \<Rightarrow>
               (case report w c uid rs of
                  (r, t3) \<Rightarrow>
                    (r, s\<lparr>catalogData := cd, results := rs, logMessages := lm\<rparr>,
                     t @ map snd t2 @ t3))))"

text \<open>The \<^verbatim>\<open>try\<close> with its \<^verbatim>\<open>catch\<close>, which logs the error and returns false.\<close>

definition session ::
  "world \<Rightarrow> string \<Rightarrow> userId \<Rightarrow> state \<Rightarrow> jsval \<times> state \<times> event list" where
  "session w u uid s =
     (case session_try w u uid s of
        (Inr v, s', t) \<Rightarrow> (v, s', t)
      | (Inl e, s', t) \<Rightarrow> (JBool False, s', t @ [Log Err (Msg ''Parsing error'' [message e])]))"

definition already_in_progress :: "userId \<Rightarrow> event" where
  "already_in_progress uid =
     Log Info (Msg ''Parsing already in progress for user'' [Arg (JNum uid)])"

text \<open>
  What \<^verbatim>\<open>parseCategory\<close> does before the \<^verbatim>\<open>try\<close> and in the \<^verbatim>\<open>finally\<close>. The
  test \<^verbatim>\<open>activeParsingUsers.has(userId)\<close> and the \<^verbatim>\<open>add\<close> have no \<^verbatim>\<open>await\<close>
  between them. \<^verbatim>\<open>logService.log\<close> catches the errors of its write, so the lines of
  the log never throw.
\<close>

definition mark_active :: "userId \<Rightarrow> state \<Rightarrow> state" where
  "mark_active uid s = s\<lparr>activeParsingUsers := insert uid (activeParsingUsers s), results := []\<rparr>"

definition clear_active :: "userId \<Rightarrow> state \<Rightarrow> state" where
  "clear_active uid s = s\<lparr>activeParsingUsers := activeParsingUsers s - {uid}\<rparr>"

definition parseCategory ::
  "world \<Rightarrow> string \<Rightarrow> userId \<Rightarrow> state \<Rightarrow> jsval \<times> state \<times> event list" where
  "parseCategory w u uid s =
     (if uid \<in> activeParsingUsers s then (JBool False, s, [already_in_progress uid])
      else
        case session w u uid (mark_active uid s) of
          (r, s', t) \<Rightarrow>
            (r, clear_active uid s', t @ [Log Info (Msg ''Total parsing time'' [])]))"

subsection \<open>The answer of the keyword service as the specification words it\<close>

text \<open>
  The answer has the shape
  \<^verbatim>\<open>{data: {keywords: {<keyword>: {cluster: {product_count, freq_syn: {monthly}} | null}}}}\<close>:
  every keyword maps to a value (not to null), and the two counts of its cluster, where
  they are present, are numbers that are not negative.
\<close>

definition count_shape :: "jsval \<Rightarrow> bool" where
  "count_shape v = (case v of JUndefined \<Rightarrow> True | JNull \<Rightarrow> True | JNum n \<Rightarrow> 0 \<le> n | _ \<Rightarrow> False)"

definition entry_shape :: "jsval \<Rightarrow> bool" where
  "entry_shape d =
     (\<not> nullish d
      \<and> count_shape (read_prop (read_prop d ''cluster'') ''product_count'')
      \<and> count_shape (opt_prop (read_prop (read_prop d ''cluster'') ''freq_syn'') ''monthly''))"

definition service_shape :: "(string \<times> jsval) list \<Rightarrow> bool" where
  "service_shape kvs = list_all (\<lambda>(k, d). entry_shape d) kvs"

definition evirma_body :: "(string \<times> jsval) list \<Rightarrow> jsval" where
  "evirma_body kvs = JObj [(''data'', JObj [(''keywords'', JObj kvs)])]"

text \<open>
  An entry survives when its cluster is neither absent nor null and the cluster has a
  positive \<^verbatim>\<open>product_count\<close> and a positive monthly frequency; it gives the row of the
  keyword with the two counts.
\<close>

definition positive :: "jsval \<Rightarrow> bool" where
  "positive v = (case v of JNum n \<Rightarrow> 0 < n | _ \<Rightarrow> False)"

definition usable :: "string \<times> jsval \<Rightarrow> bool" where
  "usable e =
     (let cluster = read_prop (snd e) ''cluster''
      in \<not> nullish cluster
         \<and> positive (read_prop cluster ''product_count'')
         \<and> positive (opt_prop (read_prop cluster ''freq_syn'') ''monthly''))"

definition row_of :: "string \<times> jsval \<Rightarrow> report_row" where
  "row_of e =
     \<lparr>term_name = fst e,
      productCount = read_prop (read_prop (snd e) ''cluster'') ''product_count'',
      monthlyFrequency =
        read_prop (read_prop (read_prop (snd e) ''cluster'') ''freq_syn'') ''monthly''\<rparr>"

text \<open>The entries that survive the first of the two filters: the cluster is not null.\<close>

definition cluster_not_null :: "string \<times> jsval \<Rightarrow> bool" where
  "cluster_not_null e = (read_prop (snd e) ''cluster'' \<noteq> JNull)"

text \<open>
  The same with the test the code applies. A value counts as missing when it is absent,
  null, false, the number 0 or the empty string; every other value, a negative number
  among them, counts as present. An entry is kept when its cluster, the
  \<^verbatim>\<open>product_count\<close> of the cluster and its monthly frequency are present.
\<close>

definition missing_values :: "jsval list" where
  "missing_values = [JUndefined, JNull, JBool False, JNum 0, JStr []]"

definition kept :: "string \<times> jsval \<Rightarrow> bool" where
  "kept e =
     (let cluster = read_prop (snd e) ''cluster''
      in cluster \<notin> set missing_values
         \<and> read_prop cluster ''product_count'' \<notin> set missing_values
         \<and> opt_prop (read_prop cluster ''freq_syn'') ''monthly'' \<notin> set missing_values)"

text \<open>No keyword of the mapping maps to null.\<close>

definition no_null_entry :: "(string \<times> jsval) list \<Rightarrow> bool" where
  "no_null_entry kvs = list_all (\<lambda>e. \<not> nullish (snd e)) kvs"

subsection \<open>The retry policy as the specification words it\<close>










text \<open>An attempt of the enrichment call fails: the request, or the reading of its answer, throws.\<close>

definition attempt_fails :: "js_error + jsval \<Rightarrow> bool" where
  "attempt_fails answer = (case evirma_try answer of Inl e \<Rightarrow> True | Inr v \<Rightarrow> False)"

text \<open>The first \<open>a\<close> attempts fail.\<close>

definition first_fail :: "(nat \<Rightarrow> js_error + jsval) \<Rightarrow> nat \<Rightarrow> bool" where
  "first_fail post a = list_all (\<lambda>i. attempt_fails (post i)) [0..<a]"

subsection \<open>The merged query as the specification words it\<close>

text \<open>The name and the query of a resolved category.\<close>

definition resolved :: "js_error + category option \<Rightarrow> (jsval \<times> jsval) option" where
  "resolved r = (case r of Inr (Some c) \<Rightarrow> Some (name c, query c) | _ \<Rightarrow> None)"

text \<open>
  The part a filter key adds to the query, read with the words "each recognized filter
  parameter present in the URL": \<open>&key=value\<close> whenever the URL has the key. And the
  sort value: the URL's, and \<open>popular\<close> when the URL has no sort parameter.
\<close>

definition present_part :: "(string \<times> string) list \<Rightarrow> string \<Rightarrow> string" where
  "present_part ps k = (case map_of ps k of Some v \<Rightarrow> ''&'' @ k @ ''='' @ v | None \<Rightarrow> [])"

definition present_sort :: "(string \<times> string) list \<Rightarrow> string" where
  "present_sort ps = (case map_of ps ''sort'' of Some v \<Rightarrow> v | None \<Rightarrow> ''popular'')"

definition present_query :: "jsval \<Rightarrow> (string \<times> string) list \<Rightarrow> string" where
  "present_query base ps =
     js_toString (js_or base (JStr [])) @ present_part ps ''priceU'' @ present_part ps ''xsubject''
     @ present_part ps ''fbrand'' @ present_part ps ''fsupplier'' @ ''&sort='' @ present_sort ps"

text \<open>
  The same with "present" read as "present with a value that is not empty": a key without
  a value adds nothing, and a sort parameter without a value gives \<open>popular\<close>.
\<close>

definition filter_part :: "(string \<times> string) list \<Rightarrow> string \<Rightarrow> string" where
  "filter_part ps k =
     (case map_of ps k of
        Some v \<Rightarrow> if v = [] then [] else ''&'' @ k @ ''='' @ v
      | None \<Rightarrow> [])"

definition sort_value :: "(string \<times> string) list \<Rightarrow> string" where
  "sort_value ps =
     (case map_of ps ''sort'' of
        Some v \<Rightarrow> if v = [] then ''popular'' else v
      | None \<Rightarrow> ''popular'')"

definition merged_query :: "jsval \<Rightarrow> (string \<times> string) list \<Rightarrow> string" where
  "merged_query base ps =
     js_toString (js_or base (JStr [])) @ filter_part ps ''priceU'' @ filter_part ps ''xsubject''
     @ filter_part ps ''fbrand'' @ filter_part ps ''fsupplier'' @ ''&sort='' @ sort_value ps"

subsection \<open>Reading the result of a session\<close>

definition returned :: "jsval \<times> state \<times> event list \<Rightarrow> jsval" where
  "returned r = fst r"

definition state_after :: "jsval \<times> state \<times> event list \<Rightarrow> state" where
  "state_after r = fst (snd r)"

definition events :: "jsval \<times> state \<times> event list \<Rightarrow> event list" where
  "events r = snd (snd r)"


section \<open>Example inputs\<close>

text \<open>
  A world in which every request succeeds with an empty answer, the bot delivers every
  message, and no URL parses.
\<close>

definition quiet_world :: world where
  "quiet_world =
     \<lparr>new_URL = (\<lambda>u. None),
      catalog_response = Inr catalog_example,
      page_response = (\<lambda>page attempt. Inr (JObj [])),
      evirma_response = (\<lambda>page attempt. Inr (JObj [])),
      bot_call = (\<lambda>s. Inr [(''message_id'', JNum 1)]),
      fs_writeFile = None,
      fs_access = None,
      now = 0\<rparr>"

definition example_url :: string where
  "example_url = ''https://x/catalog/dom/vannaya?sort=newly''"

definition resolver_world :: world where
  "resolver_world =
     quiet_world\<lparr>new_URL := (\<lambda>u. if u = example_url
        then Some \<lparr>pathname = ''/catalog/dom/vannaya'', searchParams = [(''sort'', ''newly'')]\<rparr>
        else None)\<rparr>"

text \<open>A catalog whose node has a shard and a base query, and a URL with two filters.\<close>

definition shard_catalog :: jsval where
  "shard_catalog =
     JArr [JObj [(''name'', JStr ''Dom''), (''url'', JStr ''/catalog/dom''),
                 (''shard'', JStr ''housecraft''), (''query'', JStr ''cat=8126'')]]"

definition filter_url :: string where
  "filter_url = ''https://x/catalog/dom?fbrand=11&sort=priceup''"

definition filter_world :: world where
  "filter_world =
     quiet_world\<lparr>new_URL := (\<lambda>u. if u = filter_url
        then Some \<lparr>pathname = ''/catalog/dom'',
                   searchParams = [(''fbrand'', ''11''), (''sort'', ''priceup'')]\<rparr>
        else None),
      catalog_response := Inr shard_catalog\<rparr>"

text \<open>A URL that carries the filter \<^verbatim>\<open>priceU\<close> with an empty value.\<close>

definition empty_filter_url :: string where
  "empty_filter_url = ''https://x/catalog/dom?priceU=''"

definition empty_filter_world :: world where
  "empty_filter_world =
     quiet_world\<lparr>new_URL := (\<lambda>u. if u = empty_filter_url
        then Some \<lparr>pathname = ''/catalog/dom'', searchParams = [(''priceU'', [])]\<rparr>
        else None),
      catalog_response := Inr shard_catalog\<rparr>"

text \<open>The answer of the keyword service in the scenario of the specification.\<close>

definition evirma_example :: "(string \<times> jsval) list" where
  "evirma_example =
     [(''a'', JObj [(''cluster'', JObj [(''product_count'', JNum 5),
                                        (''freq_syn'', JObj [(''monthly'', JNum 10)])])]),
      (''b'', JObj [(''cluster'', JNull)])]"

text \<open>A mapping whose only entry has a cluster with a product count of -1.\<close>

definition negative_count_example :: "(string \<times> jsval) list" where
  "negative_count_example =
     [(''a'', JObj [(''cluster'', JObj [(''product_count'', JNum (- 1)),
                                        (''freq_syn'', JObj [(''monthly'', JNum 10)])])])]"






text \<open>The state of a parser that has not run, and one in which user 7 is being served.\<close>

definition idle_state :: state where
  "idle_state =
     \<lparr>catalogData = JNull, results = [], activeParsingUsers = {}, logMessages = (\<lambda>uid. None)\<rparr>"

definition busy_state :: state where
  "busy_state = idle_state\<lparr>activeParsingUsers := {7}\<rparr>"

text \<open>
  A page of one product named A, and a world in which page 1 is that page and the keyword
  service answers with the scenario's mapping; page 2 has no products.
\<close>

definition one_product_page :: jsval where
  "one_product_page = JObj [(''data'', JObj [(''products'', JArr [JObj [(''name'', JStr ''A'')]])])]"

definition session_world :: world where
  "session_world =
     filter_world\<lparr>page_response := (\<lambda>page attempt. if page = 1 then Inr one_product_page else Inr (JObj [])),
       evirma_response := (\<lambda>page attempt. Inr (evirma_body evirma_example))\<rparr>"





text \<open>A world in which the catalog cannot be fetched.\<close>

definition crash_world :: world where
  "crash_world = filter_world\<lparr>catalog_response := Inl (Thrown (Msg ''Network Error'' []) None)\<rparr>"

text \<open>The category the URL of \<open>filter_world\<close> resolves to, and the row of the scenario.\<close>

definition filtered_category :: category where
  "filtered_category =
     \<lparr>name = JStr ''Dom'', shard = JStr ''housecraft'', url = JStr ''/catalog/dom'',
      query = JStr ''cat=8126&fbrand=11&sort=priceup''\<rparr>"

definition row_a :: report_row where
  "row_a = \<lparr>term_name = ''a'', productCount = JNum 5, monthlyFrequency = JNum 10\<rparr>"

text \<open>The world of \<open>session_world\<close> with a disk that cannot be written.\<close>

definition export_failure_world :: world where
  "export_failure_world =
     session_world\<lparr>fs_writeFile := Some (Thrown (Msg ''ENOSPC: no space left on device'' []) None)\<rparr>"

section \<open>Properties of the flattening\<close>

lemma flattened_concat:
  "map as_category (filter carries_name_url (concat (map tree_nodes items))) =
   concat (map flattened items)"
  by (induction items) (simp_all add: flattened_def)

lemma flattened_JArr: "flattened (JArr items) = concat (map flattened items)"
  using flattened_concat [of items] by (simp add: flattened_def)

lemma flattened_JObj:
  "flattened (JObj node) =
     (if carries_name_url node then [as_category node] else [])
     @ (case get_prop node ''childs'' of
          JArr childs \<Rightarrow> concat (map flattened childs)
        | _ \<Rightarrow> [])"
proof (cases "get_prop node ''childs''")
  case (JArr childs)
  then show ?thesis
    using flattened_concat [of childs] by (simp add: flattened_def)
qed (simp_all add: flattened_def)

lemma processNode_flattened: "processNode t = flattened t"
proof (induction t rule: processNode.induct)
  case (1 items)
  then have "map processNode items = map flattened items"
    by (intro map_cong) simp_all
  then show ?case
    by (simp only: processNode.simps flattened_JArr)
next
  case (2 node)
  show ?case
  proof (cases "get_prop node ''childs''")
    case (JArr childs)
    with 2 have "map processNode childs = map flattened childs"
      by (intro map_cong) simp_all
    then have "concat (map processNode childs) = concat (map flattened childs)"
      by (rule arg_cong)
    with JArr show ?thesis
      by (simp add: flattened_JObj carries_name_url_def as_category_def)
  qed (simp_all add: flattened_JObj carries_name_url_def as_category_def)
qed (simp_all add: flattened_def)

text \<open>
  C8. For every category tree, a single node or a list of nodes, nested to any depth
  through \<^verbatim>\<open>childs\<close> lists and lists of lists, the flattened output is exactly the
  sequence of the tree's object nodes in depth-first pre-order, restricted to the nodes
  that carry both a \<^verbatim>\<open>name\<close> and a \<^verbatim>\<open>url\<close>, one entry for each of them: the
  flattening is total, keeps the order and emits every such node exactly once, and a node
  without \<^verbatim>\<open>name\<close> or \<^verbatim>\<open>url\<close> gives no entry while its children are still visited.
\<close>

theorem extractCategoryData_preorder:
  "extractCategoryData tree = map as_category (filter carries_name_url (tree_nodes tree))
   \<and> length (extractCategoryData tree) = length (filter carries_name_url (tree_nodes tree))"
proof -
  have "extractCategoryData tree = processNode tree"
    by (cases tree) (simp_all add: extractCategoryData_def)
  then show ?thesis
    by (simp add: processNode_flattened flattened_def)
qed

theorem extractCategoryData_preorder_witness:
  "extractCategoryData catalog_example =
     [\<lparr>name = JStr ''Dom'', shard = JNull, url = JStr ''/catalog/dom'', query = JNull\<rparr>,
      \<lparr>name = JStr ''Vannaya'', shard = JNull, url = JStr ''/catalog/dom/vannaya'',
       query = JNull\<rparr>]
   \<and> length (filter carries_name_url (tree_nodes catalog_example)) = 2"
  using extractCategoryData_preorder [of catalog_example]
  by (simp add: catalog_example_def carries_name_url_def as_category_def has_prop_def
      get_prop_def js_or_def)

section \<open>Properties of the resolver\<close>

lemma extract_catalog_example:
  "extractCategoryData catalog_example =
     [\<lparr>name = JStr ''Dom'', shard = JNull, url = JStr ''/catalog/dom'', query = JNull\<rparr>,
      \<lparr>name = JStr ''Vannaya'', shard = JNull, url = JStr ''/catalog/dom/vannaya'',
       query = JNull\<rparr>]"
  by (simp add: extractCategoryData_def catalog_example_def has_prop_def get_prop_def js_or_def)

lemma extract_shard_catalog:
  "extractCategoryData shard_catalog =
     [\<lparr>name = JStr ''Dom'', shard = JStr ''housecraft'', url = JStr ''/catalog/dom'',
       query = JStr ''cat=8126''\<rparr>]"
  by (simp add: extractCategoryData_def shard_catalog_def has_prop_def get_prop_def js_or_def)

lemma normalize_vannaya: "normalize_path ''/catalog/dom/vannaya'' = ''/catalog/dom/vannaya''"
  by (simp add: normalize_path_def toLowerCase_def strip_trailing_slashes_def lower_char_def)

lemma normalize_dom: "normalize_path ''/catalog/dom'' = ''/catalog/dom''"
  by (simp add: normalize_path_def toLowerCase_def strip_trailing_slashes_def lower_char_def)

lemmas resolver_defs =
  findCategoryByUrl_def fetchWbCatalog_def read_filterParams_def searchParams_get_def
  merge_query_def append_param_def js_or_def resolved_def Let_def

text \<open>What a successful resolution returns: the matched node with the merged query.\<close>

lemma findCategoryByUrl_found:
  assumes "findCategoryByUrl w u cached = (Inr (Some c), cd, tr)"
  shows "\<exists>uo node. new_URL w u = Some uo
           \<and> find_category (extractCategoryData cd) (pathname uo) = Inr (Some node)
           \<and> c = node\<lparr>query := merge_query node (read_filterParams (searchParams uo))\<rparr>"
  using assms
  by (auto simp: findCategoryByUrl_def fetchWbCatalog_def Let_def
      split: if_splits sum.splits option.splits prod.splits)

lemma toString_append_param:
  "js_toString (append_param q k (js_or (searchParams_get ps k) JNull)) =
   js_toString q @ filter_part ps k"
  by (simp add: append_param_def js_or_def searchParams_get_def filter_part_def
      split: option.splits)

lemma append_param_sort:
  "append_param q ''sort'' (js_or (searchParams_get ps ''sort'') (JStr ''popular'')) =
   JStr (js_toString q @ ''&sort='' @ sort_value ps)"
  by (simp add: append_param_def js_or_def searchParams_get_def sort_value_def
      split: option.splits)

lemma merge_query_merged:
  "merge_query node (read_filterParams ps) = JStr (merged_query (query node) ps)"
  by (simp add: merge_query_def read_filterParams_def Let_def merged_query_def
      append_param_sort toString_append_param)

text \<open>
  C6, as the code has it. With the category tree of the scenario and the URL
  \<^verbatim>\<open>https://x/catalog/dom/vannaya?sort=newly\<close>, the resolution returns the category
  named Vannaya, and its query is \<^verbatim>\<open>&sort=newly\<close>: the node has no base query, and
  the sort parameter is appended to the empty string with its leading ampersand.
\<close>

theorem resolver_scenario:
  assumes "new_URL w example_url =
             Some \<lparr>pathname = ''/catalog/dom/vannaya'', searchParams = [(''sort'', ''newly'')]\<rparr>"
    and "catalog_response w = Inr catalog_example"
  shows "resolved (fst (findCategoryByUrl w example_url JNull)) =
           Some (JStr ''Vannaya'', JStr ''&sort=newly'')"
  using assms
  by (simp add: resolver_defs extract_catalog_example normalize_vannaya normalize_dom)

theorem resolver_scenario_witness:
  "resolved (fst (findCategoryByUrl resolver_world example_url JNull)) =
     Some (JStr ''Vannaya'', JStr ''&sort=newly'')"
  using resolver_scenario [of resolver_world]
  by (simp add: resolver_world_def quiet_world_def)

text \<open>
  C6, as the claim states it, fails: on the scenario's input the query of the resolved
  category is not \<^verbatim>\<open>sort=newly\<close>.
\<close>

theorem resolver_scenario_counterexample:
  "resolved (fst (findCategoryByUrl resolver_world example_url JNull)) \<noteq>
     Some (JStr ''Vannaya'', JStr ''sort=newly'')"
  by (simp add: resolver_defs extract_catalog_example normalize_vannaya normalize_dom
      resolver_world_def quiet_world_def)

text \<open>
  C7, as the code has it. Whenever a URL resolves, the query of the resolved category is
  the base query of the matched node (the empty string when the node has none) followed,
  in the fixed order priceU, xsubject, fbrand, fsupplier, sort, by \<open>&key=value\<close> for each
  of the four filters the URL carries with a value that is not empty (the value of the
  first occurrence), and always by \<open>&sort=\<close> with the URL's sort value, or with
  \<open>popular\<close> when the URL has no sort parameter or an empty one.
\<close>

theorem merged_query_order:
  assumes "findCategoryByUrl w u cached = (Inr (Some c), cd, tr)"
  shows "\<exists>uo node. new_URL w u = Some uo
           \<and> find_category (extractCategoryData cd) (pathname uo) = Inr (Some node)
           \<and> query c = JStr (merged_query (query node) (searchParams uo))"
proof -
  from findCategoryByUrl_found [OF assms] obtain uo node where
    "new_URL w u = Some uo"
    "find_category (extractCategoryData cd) (pathname uo) = Inr (Some node)"
    "c = node\<lparr>query := merge_query node (read_filterParams (searchParams uo))\<rparr>"
    by blast
  then show ?thesis
    by (auto simp: merge_query_merged)
qed

theorem merged_query_order_witness:
  "fst (findCategoryByUrl filter_world filter_url JNull) =
     Inr (Some \<lparr>name = JStr ''Dom'', shard = JStr ''housecraft'', url = JStr ''/catalog/dom'',
                query = JStr ''cat=8126&fbrand=11&sort=priceup''\<rparr>)
   \<and> (\<exists>uo node. new_URL filter_world filter_url = Some uo
         \<and> find_category (extractCategoryData shard_catalog) (pathname uo) = Inr (Some node)
         \<and> JStr ''cat=8126&fbrand=11&sort=priceup''
             = JStr (merged_query (query node) (searchParams uo)))"
proof -
  have res: "fst (findCategoryByUrl filter_world filter_url JNull) =
      Inr (Some \<lparr>name = JStr ''Dom'', shard = JStr ''housecraft'', url = JStr ''/catalog/dom'',
                 query = JStr ''cat=8126&fbrand=11&sort=priceup''\<rparr>)"
    by (simp add: resolver_defs extract_shard_catalog normalize_dom filter_world_def
        quiet_world_def)
  have cat: "fst (snd (findCategoryByUrl filter_world filter_url JNull)) = shard_catalog"
    by (simp add: resolver_defs extract_shard_catalog normalize_dom filter_world_def
        quiet_world_def)
  have run: "findCategoryByUrl filter_world filter_url JNull =
      (Inr (Some \<lparr>name = JStr ''Dom'', shard = JStr ''housecraft'', url = JStr ''/catalog/dom'',
                  query = JStr ''cat=8126&fbrand=11&sort=priceup''\<rparr>),
       shard_catalog,
       snd (snd (findCategoryByUrl filter_world filter_url JNull)))"
    using res cat by (metis prod.collapse)
  from merged_query_order [OF run] show ?thesis
    using res by simp
qed

text \<open>
  C7, as the claim states it, fails: for the URL \<^verbatim>\<open>https://x/catalog/dom?priceU=\<close>
  the filter priceU is present in the URL, and the query of the resolved category is
  \<^verbatim>\<open>cat=8126&sort=popular\<close>, without the \<^verbatim>\<open>&priceU=\<close> that appending every present
  parameter gives.
\<close>

theorem merged_query_order_counterexample:
  "resolved (fst (findCategoryByUrl empty_filter_world empty_filter_url JNull)) =
     Some (JStr ''Dom'', JStr ''cat=8126&sort=popular'')
   \<and> present_query (JStr ''cat=8126'') [(''priceU'', [])] = ''cat=8126&priceU=&sort=popular''
   \<and> resolved (fst (findCategoryByUrl empty_filter_world empty_filter_url JNull)) \<noteq>
     Some (JStr ''Dom'', JStr (present_query (JStr ''cat=8126'') [(''priceU'', [])]))"
  by (simp add: resolver_defs extract_shard_catalog normalize_dom empty_filter_world_def
      quiet_world_def present_query_def present_part_def present_sort_def)

text \<open>
  C10. For every resolved category and every page number, the address the scraper
  requests is the catalog endpoint of the node's shard with the fixed parameters
  \<^verbatim>\<open>appType=1\<close>, \<^verbatim>\<open>curr=rub\<close>, \<^verbatim>\<open>dest=-1257786\<close>, \<^verbatim>\<open>locale=ru\<close>, the page,
  \<^verbatim>\<open>sort=popular\<close> and \<^verbatim>\<open>spp=0\<close>, followed by the merged query; the merged query
  ends with \<open>&sort=\<close> and the sort value of the URL (or \<open>popular\<close>), so the address has
  the sort key once with the fixed value and once more, last, with the user's value.
\<close>

theorem page_url_sort_twice:
  assumes "findCategoryByUrl w u cached = (Inr (Some c), cd, tr)"
  shows "\<exists>uo node. new_URL w u = Some uo
           \<and> find_category (extractCategoryData cd) (pathname uo) = Inr (Some node)
           \<and> page_url page c =
               ''https://catalog.wb.ru/catalog/'' @ js_toString (shard node)
               @ ''/catalog?appType=1&curr=rub&dest=-1257786&locale=ru&page='' @ decimal page
               @ ''&sort=popular&spp=0&''
               @ js_toString (js_or (query node) (JStr []))
               @ filter_part (searchParams uo) ''priceU''
               @ filter_part (searchParams uo) ''xsubject''
               @ filter_part (searchParams uo) ''fbrand''
               @ filter_part (searchParams uo) ''fsupplier''
               @ ''&sort='' @ sort_value (searchParams uo)
           \<and> sort_value (searchParams uo) \<noteq> []"
proof -
  from findCategoryByUrl_found [OF assms] obtain uo node where
    "new_URL w u = Some uo"
    "find_category (extractCategoryData cd) (pathname uo) = Inr (Some node)"
    "c = node\<lparr>query := merge_query node (read_filterParams (searchParams uo))\<rparr>"
    by blast
  moreover have "sort_value (searchParams uo) \<noteq> []"
    by (simp add: sort_value_def split: option.splits)
  ultimately show ?thesis
    by (auto simp: merge_query_merged merged_query_def page_url_def)
qed

theorem page_url_sort_twice_witness:
  "(case fst (findCategoryByUrl filter_world filter_url JNull) of
      Inr (Some c) \<Rightarrow> page_url 3 c | _ \<Rightarrow> [])
   = ''https://catalog.wb.ru/catalog/housecraft/catalog?appType=1&curr=rub&dest=-1257786&locale=ru&page=3&sort=popular&spp=0&cat=8126&fbrand=11&sort=priceup''
   \<and> (\<exists>uo node. new_URL filter_world filter_url = Some uo
         \<and> find_category (extractCategoryData shard_catalog) (pathname uo) = Inr (Some node)
         \<and> sort_value (searchParams uo) = ''priceup'')"
proof -
  have res: "fst (findCategoryByUrl filter_world filter_url JNull) =
      Inr (Some \<lparr>name = JStr ''Dom'', shard = JStr ''housecraft'', url = JStr ''/catalog/dom'',
                 query = JStr ''cat=8126&fbrand=11&sort=priceup''\<rparr>)"
    by (simp add: resolver_defs extract_shard_catalog normalize_dom filter_world_def
        quiet_world_def)
  have cat: "fst (snd (findCategoryByUrl filter_world filter_url JNull)) = shard_catalog"
    by (simp add: resolver_defs extract_shard_catalog normalize_dom filter_world_def
        quiet_world_def)
  have run: "findCategoryByUrl filter_world filter_url JNull =
      (Inr (Some \<lparr>name = JStr ''Dom'', shard = JStr ''housecraft'', url = JStr ''/catalog/dom'',
                  query = JStr ''cat=8126&fbrand=11&sort=priceup''\<rparr>),
       shard_catalog,
       snd (snd (findCategoryByUrl filter_world filter_url JNull)))"
    using res cat by (metis prod.collapse)
  have url3: "page_url 3 \<lparr>name = JStr ''Dom'', shard = JStr ''housecraft'',
      url = JStr ''/catalog/dom'', query = JStr ''cat=8126&fbrand=11&sort=priceup''\<rparr>
    = ''https://catalog.wb.ru/catalog/housecraft/catalog?appType=1&curr=rub&dest=-1257786&locale=ru&page=3&sort=popular&spp=0&cat=8126&fbrand=11&sort=priceup''"
    by (simp add: page_url_def decimal.simps digit_char_def)
  from page_url_sort_twice [OF run, of 3] obtain uo node where
    *: "new_URL filter_world filter_url = Some uo"
       "find_category (extractCategoryData shard_catalog) (pathname uo) = Inr (Some node)"
    by blast
  from *(1) have "searchParams uo = [(''fbrand'', ''11''), (''sort'', ''priceup'')]"
    by (auto simp: filter_world_def quiet_world_def)
  then have "sort_value (searchParams uo) = ''priceup''"
    by (simp add: sort_value_def)
  with * show ?thesis
    using res url3 by auto
qed

section \<open>Properties of the keyword service client\<close>



lemma filter_clusters_no_null:
  "no_null_entry kvs \<Longrightarrow> filter_clusters kvs = Inr (filter cluster_not_null kvs)"
  by (induction kvs) (auto simp: no_null_entry_def cluster_not_null_def)

lemma truthy_present: "truthy v = (v \<notin> set missing_values)"
  by (cases v) (auto simp: missing_values_def)

lemma count_truthy: "count_shape v \<Longrightarrow> truthy v = positive v"
  by (cases v) (auto simp: count_shape_def positive_def)

lemma positive_read_prop: "positive (read_prop c k) \<Longrightarrow> truthy c \<and> \<not> nullish c"
  by (cases c) (simp_all add: positive_def)

lemma entry_truthy:
  assumes "entry_shape d"
  shows "(truthy (read_prop d ''cluster'')
          \<and> truthy (read_prop (read_prop d ''cluster'') ''product_count'')
          \<and> truthy (opt_prop (read_prop (read_prop d ''cluster'') ''freq_syn'') ''monthly''))
         = usable (k, d)"
proof -
  from assms have "truthy (read_prop (read_prop d ''cluster'') ''product_count'')
      = positive (read_prop (read_prop d ''cluster'') ''product_count'')"
    and "truthy (opt_prop (read_prop (read_prop d ''cluster'') ''freq_syn'') ''monthly'')
      = positive (opt_prop (read_prop (read_prop d ''cluster'') ''freq_syn'') ''monthly'')"
    by (simp_all add: entry_shape_def count_truthy)
  then show ?thesis
    using positive_read_prop [of "read_prop d ''cluster''" "''product_count''"]
    by (auto simp: usable_def)
qed

lemma kept_truthy:
  "kept (k, d) =
     (truthy (read_prop d ''cluster'')
      \<and> truthy (read_prop (read_prop d ''cluster'') ''product_count'')
      \<and> truthy (opt_prop (read_prop (read_prop d ''cluster'') ''freq_syn'') ''monthly''))"
  by (simp add: kept_def Let_def truthy_present)

lemma kept_usable: "service_shape kvs \<Longrightarrow> filter kept kvs = filter usable kvs"
proof (induction kvs)
  case Nil
  show ?case by simp
next
  case (Cons e kvs)
  obtain k d where e: "e = (k, d)" by (cases e)
  with Cons.prems have sh: "entry_shape d" and rest: "service_shape kvs"
    by (simp_all add: service_shape_def)
  from entry_truthy [OF sh, of k] have "kept (k, d) = usable (k, d)"
    by (simp add: kept_truthy)
  with Cons.IH [OF rest] e show ?case by simp
qed

lemma kept_not_null: "kept e \<Longrightarrow> cluster_not_null e"
  by (auto simp: kept_def cluster_not_null_def missing_values_def Let_def)

lemma parse_entries_kept:
  "no_null_entry kvs \<Longrightarrow>
   parse_entries (filter cluster_not_null kvs) = Inr (map row_of (filter kept kvs))"
proof (induction kvs)
  case Nil
  show ?case by simp
next
  case (Cons e kvs)
  obtain k d where e: "e = (k, d)" by (cases e)
  from Cons.prems e have d: "\<not> nullish d" and rest: "no_null_entry kvs"
    by (simp_all add: no_null_entry_def)
  note ih = Cons.IH [OF rest]
  show ?case
  proof (cases "kept (k, d)")
    case True
    then have "cluster_not_null (k, d)" by (rule kept_not_null)
    moreover from True
    have "truthy (read_prop d ''cluster'')
          \<and> truthy (read_prop (read_prop d ''cluster'') ''product_count'')
          \<and> truthy (opt_prop (read_prop (read_prop d ''cluster'') ''freq_syn'') ''monthly'')"
      by (simp add: kept_truthy)
    ultimately show ?thesis
      using True ih e d by (simp add: Let_def row_of_def)
  next
    case False
    then have "\<not> (truthy (read_prop d ''cluster'')
          \<and> truthy (read_prop (read_prop d ''cluster'') ''product_count'')
          \<and> truthy (opt_prop (read_prop (read_prop d ''cluster'') ''freq_syn'') ''monthly''))"
      by (simp add: kept_truthy)
    then show ?thesis
      using False ih e d by (auto simp: Let_def)
  qed
qed

lemma evirma_try_no_null:
  "no_null_entry kvs \<Longrightarrow>
   evirma_try (Inr (evirma_body kvs)) =
     Inr (if filter cluster_not_null kvs = [] then JNull
          else evirma_body (filter cluster_not_null kvs))"
  by (simp add: evirma_try_def evirma_body_def opt_prop_def get_prop_def js_or_def
      filter_clusters_no_null Object_fromEntries_def)

lemma parseEvirmaResponse_body:
  "parseEvirmaResponse (evirma_body kvs) = parse_entries kvs"
  by (simp add: parseEvirmaResponse_def evirma_body_def opt_prop_def get_prop_def)

lemma parseEvirmaResponse_null: "parseEvirmaResponse JNull = Inr []"
  by (simp add: parseEvirmaResponse_def opt_prop_def)

lemma evirma_attempts_fail:
  assumes "attempt + 1 < EVIRMA_MAX_RETRIES" and "attempt_fails (post attempt)"
  shows "fst (evirma_attempts post kws attempt) = fst (evirma_attempts post kws (attempt + 1))"
  using assms
  by (simp add: evirma_attempts.simps [of post kws attempt] attempt_fails_def
      split: sum.splits prod.splits)

lemma evirma_attempts_skip:
  "a + j < EVIRMA_MAX_RETRIES \<Longrightarrow>
   (\<forall>i. a \<le> i \<and> i < a + j \<longrightarrow> attempt_fails (post i)) \<Longrightarrow>
   fst (evirma_attempts post kws a) = fst (evirma_attempts post kws (a + j))"
proof (induction j arbitrary: a)
  case 0
  show ?case by simp
next
  case (Suc j)
  from Suc.prems have "fst (evirma_attempts post kws a) = fst (evirma_attempts post kws (a + 1))"
    by (intro evirma_attempts_fail) auto
  also from Suc.prems have "\<dots> = fst (evirma_attempts post kws (Suc a + j))"
    using Suc.IH [of "Suc a"] by simp
  finally show ?case by simp
qed

lemma queryEvirmaApi_skip:
  assumes "a < EVIRMA_MAX_RETRIES" and "first_fail post a"
  shows "fst (queryEvirmaApi post kws) = fst (evirma_attempts post kws a)"
  using evirma_attempts_skip [of 0 a post kws] assms
  by (simp add: queryEvirmaApi_def first_fail_def list_all_iff)

text \<open>What the call returns when the attempt \<open>a\<close> is the first that is answered.\<close>

lemma queryEvirmaApi_answer_no_null:
  assumes "no_null_entry kvs" and "a < EVIRMA_MAX_RETRIES" and "first_fail post a"
    and "post a = Inr (evirma_body kvs)"
  shows "fst (queryEvirmaApi post kws) =
      Inr (if filter cluster_not_null kvs = [] then JNull
           else evirma_body (filter cluster_not_null kvs))"
  using assms(1,2,4)
  by (simp add: queryEvirmaApi_skip [OF assms(2,3)] evirma_attempts.simps [of post kws a]
      evirma_try_no_null)


text \<open>
  C4, as the code has it. For every keyword-to-cluster mapping that the enrichment call
  receives from the service, at its first attempt or after failed ones, in which no
  keyword maps to null: the entries whose cluster is missing (absent, null, or another
  value that converts to false) are discarded, and of the remainder those whose cluster
  has a missing \<^verbatim>\<open>product_count\<close> or a missing monthly frequency (absent, null, 0, the
  empty string, false) are discarded; the test is the conversion to boolean, not a
  comparison with 0, so a count that is a negative number is kept. The surviving entries
  give, in the order of the response, the rows of keyword, product count and monthly
  frequency: the value \<^verbatim>\<open>queryEvirmaApi\<close> returns is turned by
  \<^verbatim>\<open>parseEvirmaResponse\<close> into exactly these rows. Where the counts that are present
  are numbers that are not negative, the surviving entries are those with a cluster
  that is neither absent nor null, a positive product count and a positive monthly
  frequency. The witness is the scenario of the specification, which yields the one row
  of \<open>a\<close> with 5 and 10.
\<close>

theorem enrichment_filtering:
  assumes "no_null_entry kvs" and "a < EVIRMA_MAX_RETRIES" and "first_fail post a"
    and "post a = Inr (evirma_body kvs)"
  shows "(\<exists>v. fst (queryEvirmaApi post kws) = Inr v
            \<and> parseEvirmaResponse v = Inr (map row_of (filter kept kvs)))
       \<and> (service_shape kvs \<longrightarrow> filter kept kvs = filter usable kvs)"
proof (intro conjI impI)
  note q = queryEvirmaApi_answer_no_null [OF assms, of kws]
  have p: "parse_entries (filter cluster_not_null kvs) = Inr (map row_of (filter kept kvs))"
    using assms(1) by (rule parse_entries_kept)
  show "\<exists>v. fst (queryEvirmaApi post kws) = Inr v
            \<and> parseEvirmaResponse v = Inr (map row_of (filter kept kvs))"
  proof (cases "filter cluster_not_null kvs = []")
    case True
    with p have "map row_of (filter kept kvs) = []" by simp
    with True q show ?thesis by (simp add: parseEvirmaResponse_null)
  next
    case False
    with q p show ?thesis by (simp add: parseEvirmaResponse_body)
  qed
next
  assume "service_shape kvs"
  then show "filter kept kvs = filter usable kvs"
    by (rule kept_usable)
qed

theorem enrichment_filtering_witness:
  "no_null_entry evirma_example
   \<and> service_shape evirma_example
   \<and> (\<exists>v. fst (queryEvirmaApi (\<lambda>attempt. Inr (evirma_body evirma_example)) []) = Inr v
         \<and> parseEvirmaResponse v =
             Inr [\<lparr>term_name = ''a'', productCount = JNum 5, monthlyFrequency = JNum 10\<rparr>])
   \<and> filter usable evirma_example = filter kept evirma_example"
proof -
  have nn: "no_null_entry evirma_example"
    by (simp add: no_null_entry_def evirma_example_def)
  have sh: "service_shape evirma_example"
    by (simp add: service_shape_def evirma_example_def entry_shape_def count_shape_def
        opt_prop_def get_prop_def)
  have rows: "map row_of (filter kept evirma_example) =
      [\<lparr>term_name = ''a'', productCount = JNum 5, monthlyFrequency = JNum 10\<rparr>]"
    by (simp add: evirma_example_def kept_def missing_values_def row_of_def opt_prop_def
        get_prop_def)
  have a: "(0::nat) < EVIRMA_MAX_RETRIES"
    and f: "first_fail (\<lambda>attempt. Inr (evirma_body evirma_example)) 0"
    by (simp_all add: EVIRMA_MAX_RETRIES_def first_fail_def)
  from enrichment_filtering [OF nn a f, of "[]"] sh
  have "\<exists>v. fst (queryEvirmaApi (\<lambda>attempt. Inr (evirma_body evirma_example)) []) = Inr v
         \<and> parseEvirmaResponse v = Inr (map row_of (filter kept evirma_example))"
    and "filter kept evirma_example = filter usable evirma_example"
    by blast+
  then show ?thesis
    using nn sh rows by simp
qed

text \<open>
  C4, as the claim states it, fails: the only entry of the response has a cluster with a
  product count of -1, which is not positive, so the claim discards the entry; the code
  keeps it and gives its row.
\<close>

theorem enrichment_filtering_counterexample:
  "filter usable negative_count_example = []
   \<and> fst (queryEvirmaApi (\<lambda>attempt. Inr (evirma_body negative_count_example)) []) =
       Inr (evirma_body negative_count_example)
   \<and> parseEvirmaResponse (evirma_body negative_count_example) =
       Inr [\<lparr>term_name = ''a'', productCount = JNum (- 1), monthlyFrequency = JNum 10\<rparr>]
   \<and> parseEvirmaResponse (evirma_body negative_count_example) \<noteq>
       Inr (map row_of (filter usable negative_count_example))"
  by code_simp

text \<open>
  A keyword that maps to null is outside the statement above: reading
  \<^verbatim>\<open>data.cluster\<close> of null throws a TypeError inside the \<^verbatim>\<open>try\<close>, the attempt counts
  as failed, and when the service gives the same answer three times the call throws.
\<close>

lemma null_entry_throws:
  "evirma_try (Inr (evirma_body [(''a'', JNull)])) = Inl TypeError
   \<and> fst (queryEvirmaApi (\<lambda>attempt. Inr (evirma_body [(''a'', JNull)])) []) =
       Inl (Error (Msg ''Evirma API request error'' [message TypeError]))"
  by code_simp

section \<open>Properties of the page scraper\<close>


















section \<open>Properties of the parsing session\<close>

lemma session_try_active:
  "activeParsingUsers (fst (snd (session_try w u uid s))) = activeParsingUsers s"
  by (simp add: session_try_def split: prod.splits sum.splits option.splits)

lemma session_active:
  "activeParsingUsers (fst (snd (session w u uid s))) = activeParsingUsers s"
proof -
  obtain r s' t where st: "session_try w u uid s = (r, s', t)"
    by (cases "session_try w u uid s")
  with session_try_active [of w u uid s] have "activeParsingUsers s' = activeParsingUsers s"
    by simp
  with st show ?thesis
    by (cases r) (simp_all add: session_def)
qed

lemma parseCategory_blocked:
  "uid \<in> activeParsingUsers s \<Longrightarrow>
   parseCategory w u uid s = (JBool False, s, [already_in_progress uid])"
  by (simp add: parseCategory_def)

lemma parseCategory_active:
  assumes "uid \<notin> activeParsingUsers s"
  shows "activeParsingUsers (state_after (parseCategory w u uid s)) = activeParsingUsers s"
proof -
  obtain r s' t where st: "session w u uid (mark_active uid s) = (r, s', t)"
    by (cases "session w u uid (mark_active uid s)")
  with session_active [of w u uid "mark_active uid s"]
  have "activeParsingUsers s' = insert uid (activeParsingUsers s)"
    by (simp add: mark_active_def)
  with assms st show ?thesis
    by (simp add: parseCategory_def state_after_def clear_active_def)
qed

lemma parseCategory_events:
  assumes "uid \<notin> activeParsingUsers s"
  shows "\<exists>t. events (parseCategory w u uid s) = t @ [Log Info (Msg ''Total parsing time'' [])]"
  using assms by (simp add: parseCategory_def events_def split: prod.splits)

text \<open>
  C1. For every call \<^verbatim>\<open>parseCategory(url, userId)\<close>, whatever the outside answers: when
  the user is in the active set, the call returns false and leaves the state as it is
  (its one effect is a line in the log); otherwise the user is put into the active set,
  stays in it until the \<^verbatim>\<open>try\<close> with its \<^verbatim>\<open>catch\<close> has ended (by a returned value or
  by a caught error, at any step), and is removed from it by the \<^verbatim>\<open>finally\<close>, the other
  users of the set untouched; so the next call for this user, in any world, is not turned
  away and runs its session.
\<close>

theorem one_session_per_user:
  "(uid \<in> activeParsingUsers s \<longrightarrow>
      parseCategory w u uid s = (JBool False, s, [already_in_progress uid]))
   \<and> (uid \<notin> activeParsingUsers s \<longrightarrow>
        uid \<in> activeParsingUsers (mark_active uid s)
      \<and> parseCategory w u uid s =
          (returned (session w u uid (mark_active uid s)),
           clear_active uid (state_after (session w u uid (mark_active uid s))),
           events (session w u uid (mark_active uid s)) @ [Log Info (Msg ''Total parsing time'' [])])
      \<and> activeParsingUsers (state_after (session w u uid (mark_active uid s))) =
          insert uid (activeParsingUsers s)
      \<and> activeParsingUsers (state_after (parseCategory w u uid s)) = activeParsingUsers s - {uid}
      \<and> uid \<notin> activeParsingUsers (state_after (parseCategory w u uid s))
      \<and> events (parseCategory w' u' uid (state_after (parseCategory w u uid s)))
          \<noteq> [already_in_progress uid]
      \<and> returned (parseCategory w' u' uid (state_after (parseCategory w u uid s)))
          = returned (session w' u' uid (mark_active uid (state_after (parseCategory w u uid s)))))"
proof (intro conjI impI)
  assume "uid \<in> activeParsingUsers s"
  then show "parseCategory w u uid s = (JBool False, s, [already_in_progress uid])"
    by (rule parseCategory_blocked)
next
  assume free: "uid \<notin> activeParsingUsers s"
  show "uid \<in> activeParsingUsers (mark_active uid s)"
    by (simp add: mark_active_def)
  show "parseCategory w u uid s =
          (returned (session w u uid (mark_active uid s)),
           clear_active uid (state_after (session w u uid (mark_active uid s))),
           events (session w u uid (mark_active uid s)) @ [Log Info (Msg ''Total parsing time'' [])])"
    using free
    by (simp add: parseCategory_def returned_def state_after_def events_def split: prod.splits)
  show "activeParsingUsers (state_after (session w u uid (mark_active uid s))) =
          insert uid (activeParsingUsers s)"
    by (simp add: state_after_def session_active mark_active_def)
  from parseCategory_active [OF free, of w u]
  show after: "activeParsingUsers (state_after (parseCategory w u uid s)) = activeParsingUsers s - {uid}"
    using free by simp
  from after free
  show free': "uid \<notin> activeParsingUsers (state_after (parseCategory w u uid s))"
    by simp
  from parseCategory_events [OF free', of w' u']
  show "events (parseCategory w' u' uid (state_after (parseCategory w u uid s)))
          \<noteq> [already_in_progress uid]"
    by (auto simp: already_in_progress_def)
  show "returned (parseCategory w' u' uid (state_after (parseCategory w u uid s)))
          = returned (session w' u' uid (mark_active uid (state_after (parseCategory w u uid s))))"
    using free'
    by (simp add: parseCategory_def returned_def split: prod.splits)
qed

theorem one_session_per_user_witness:
  "parseCategory resolver_world example_url 7 busy_state =
     (JBool False, busy_state, [already_in_progress 7])
   \<and> 7 \<in> activeParsingUsers (mark_active 7 idle_state)
   \<and> activeParsingUsers (state_after (parseCategory crash_world filter_url 7 idle_state)) = {}
   \<and> events (parseCategory session_world filter_url 7
         (state_after (parseCategory crash_world filter_url 7 idle_state)))
       \<noteq> [already_in_progress 7]"
proof -
  have b: "7 \<in> activeParsingUsers busy_state"
    and i: "7 \<notin> activeParsingUsers idle_state"
    and e: "activeParsingUsers idle_state - {7} = {}"
    by (simp_all add: busy_state_def idle_state_def)
  from one_session_per_user [of 7 busy_state resolver_world example_url] b
  have B: "parseCategory resolver_world example_url 7 busy_state =
      (JBool False, busy_state, [already_in_progress 7])"
    by blast
  from one_session_per_user [of 7 idle_state crash_world filter_url session_world filter_url] i
  have I: "7 \<in> activeParsingUsers (mark_active 7 idle_state)"
    "activeParsingUsers (state_after (parseCategory crash_world filter_url 7 idle_state)) =
       activeParsingUsers idle_state - {7}"
    "events (parseCategory session_world filter_url 7
         (state_after (parseCategory crash_world filter_url 7 idle_state)))
       \<noteq> [already_in_progress 7]"
    by blast+
  show ?thesis
    using B I e by simp
qed

lemma report_value:
  assumes "fst (report w c uid rs) = Inr v"
  shows "(rs = [] \<longrightarrow> (\<exists>m. v = JObj m)) \<and> (rs \<noteq> [] \<longrightarrow> v = JBool True)"
proof (cases "rs = []")
  case True
  with assms show ?thesis
    by (auto simp: report_def split: sum.splits)
next
  case False
  then have "0 < length rs" by simp
  with False assms show ?thesis
    by (auto simp: report_def Let_def split: prod.splits sum.splits option.splits if_splits)
qed

lemma session_returned:
  "returned (session w u uid s) =
     (case fst (findCategoryByUrl w u (catalogData s)) of
        Inl e \<Rightarrow> JBool False
      | Inr None \<Rightarrow> JBool False
      | Inr (Some c) \<Rightarrow>
          (case fst (page_loop w c uid 1 (results s) (logMessages s)) of
             Some e \<Rightarrow> JBool False
           | None \<Rightarrow>
               (case fst (report w c uid (fst (snd (page_loop w c uid 1 (results s) (logMessages s))))) of
                  Inl e \<Rightarrow> JBool False
                | Inr v \<Rightarrow> v)))"
proof -
  obtain fr cd t where f: "findCategoryByUrl w u (catalogData s) = (fr, cd, t)"
    by (cases "findCategoryByUrl w u (catalogData s)")
  show ?thesis
  proof (cases fr)
    case (Inl e)
    with f show ?thesis
      by (simp add: session_def session_try_def returned_def)
  next
    case (Inr oc)
    show ?thesis
    proof (cases oc)
      case None
      with f Inr show ?thesis
        by (simp add: session_def session_try_def returned_def)
    next
      case (Some c)
      obtain lr rs lm t2 where l: "page_loop w c uid 1 (results s) (logMessages s) = (lr, rs, lm, t2)"
        by (cases "page_loop w c uid 1 (results s) (logMessages s)")
      show ?thesis
      proof (cases lr)
        case (Some e)
        with f Inr \<open>oc = Some c\<close> l show ?thesis
          by (simp add: session_def session_try_def returned_def)
      next
        case None
        obtain rr t3 where r: "report w c uid rs = (rr, t3)"
          by (cases "report w c uid rs")
        with f Inr \<open>oc = Some c\<close> l None show ?thesis
          by (cases rr) (simp_all add: session_def session_try_def returned_def)
      qed
    qed
  qed
qed

lemma parseCategory_returned:
  assumes "uid \<notin> activeParsingUsers s"
  shows "returned (parseCategory w u uid s) = returned (session w u uid (mark_active uid s))"
  using assms by (simp add: parseCategory_def returned_def split: prod.splits)

text \<open>
  C2, as the code has it. A call for a user who is not active returns false when the
  category is not found and when an error reaches the outer \<^verbatim>\<open>catch\<close>, whether it
  comes from the resolution, from a notification that fails inside a \<^verbatim>\<open>catch\<close> of the
  page loop, or from the reporting step. It returns \<^verbatim>\<open>true\<close> when the category
  resolves, the page loop ends without such an error, rows were collected and the
  reporting step completes.
\<close>

theorem return_value_contract:
  assumes "uid \<notin> activeParsingUsers s"
  shows "(fst (findCategoryByUrl w u (catalogData s)) = Inr None \<longrightarrow>
            returned (parseCategory w u uid s) = JBool False)
       \<and> (\<forall>e. fst (findCategoryByUrl w u (catalogData s)) = Inl e \<longrightarrow>
            returned (parseCategory w u uid s) = JBool False)
       \<and> (\<forall>c. fst (findCategoryByUrl w u (catalogData s)) = Inr (Some c) \<longrightarrow>
            (\<forall>e. fst (page_loop w c uid 1 [] (logMessages s)) = Some e \<longrightarrow>
               returned (parseCategory w u uid s) = JBool False)
          \<and> (fst (page_loop w c uid 1 [] (logMessages s)) = None \<longrightarrow>
               (\<forall>e. fst (report w c uid (fst (snd (page_loop w c uid 1 [] (logMessages s))))) = Inl e \<longrightarrow>
                  returned (parseCategory w u uid s) = JBool False)
             \<and> (\<forall>v. fst (report w c uid (fst (snd (page_loop w c uid 1 [] (logMessages s))))) = Inr v
                    \<and> fst (snd (page_loop w c uid 1 [] (logMessages s))) \<noteq> [] \<longrightarrow>
                  returned (parseCategory w u uid s) = JBool True)))"
proof -
  have m: "catalogData (mark_active uid s) = catalogData s"
    "results (mark_active uid s) = []" "logMessages (mark_active uid s) = logMessages s"
    by (simp_all add: mark_active_def)
  note ret = parseCategory_returned [OF assms, of w u]
    session_returned [of w u uid "mark_active uid s", unfolded m]
  have v: "fst (report w c uid rs) = Inr v \<Longrightarrow> rs \<noteq> [] \<Longrightarrow> v = JBool True" for c rs v
    using report_value [of w c uid rs v] by simp
  show ?thesis
    using v by (auto simp: ret)
qed

theorem return_value_contract_witness:
  "7 \<notin> activeParsingUsers idle_state
   \<and> returned (parseCategory session_world filter_url 7 idle_state) = JBool True
   \<and> returned (parseCategory crash_world filter_url 7 idle_state) = JBool False"
proof -
  have free: "7 \<notin> activeParsingUsers idle_state"
    by (simp add: idle_state_def)
  have f: "fst (findCategoryByUrl session_world filter_url (catalogData idle_state)) =
      Inr (Some filtered_category)"
    by code_simp
  have l: "fst (page_loop session_world filtered_category 7 1 [] (logMessages idle_state)) = None"
    by code_simp
  have rs: "fst (snd (page_loop session_world filtered_category 7 1 [] (logMessages idle_state))) =
      [row_a]"
    by code_simp
  have r: "fst (report session_world filtered_category 7 [row_a]) = Inr (JBool True)"
    by code_simp
  have e: "fst (findCategoryByUrl crash_world filter_url (catalogData idle_state)) =
      Inl (Thrown (Msg ''Network Error'' []) None)"
    by code_simp
  from return_value_contract [OF free, of session_world filter_url] f l rs r
  have "returned (parseCategory session_world filter_url 7 idle_state) = JBool True"
    by simp
  moreover from return_value_contract [OF free, of crash_world filter_url] e
  have "returned (parseCategory crash_world filter_url 7 idle_state) = JBool False"
    by simp
  ultimately show ?thesis
    using free by simp
qed

text \<open>
  C2, as the claim states it, fails: with a disk that cannot be written, the category
  resolves, the page loop collects the row of the scenario and ends, the run reaches the
  reporting step, and the call returns false, for an error that is not one of the setup.
\<close>

theorem return_value_contract_counterexample:
  "fst (findCategoryByUrl export_failure_world filter_url (catalogData idle_state)) =
     Inr (Some filtered_category)
   \<and> fst (page_loop export_failure_world filtered_category 7 1 [] (logMessages idle_state)) = None
   \<and> fst (snd (page_loop export_failure_world filtered_category 7 1 [] (logMessages idle_state))) =
       [row_a]
   \<and> returned (parseCategory export_failure_world filter_url 7 idle_state) = JBool False
   \<and> returned (parseCategory export_failure_world filter_url 7 idle_state) \<noteq> JBool True"
  by code_simp

text \<open>
  On the path with zero rows the value returned is the one \<^verbatim>\<open>bot.sendMessage\<close> returns
  for the notice (\<^verbatim>\<open>return await bot.sendMessage(...)\<close>), where every other path
  returns a boolean: with the scenario's tree and URL and a first page without products,
  the call returns the message object.
\<close>

lemma zero_rows_return_value:
  "resolved (fst (findCategoryByUrl resolver_world example_url (catalogData idle_state))) =
     Some (JStr ''Vannaya'', JStr ''&sort=newly'')
   \<and> results (state_after (parseCategory resolver_world example_url 7 idle_state)) = []
   \<and> returned (parseCategory resolver_world example_url 7 idle_state) =
       JObj [(''message_id'', JNum 1)]"
  by code_simp








end
